theory Spec2Isabelle
  imports Main
begin

section \<open>Shared schema (shared/schema.ts)\<close>

text \<open>
  Strings are sequences of bytes: the UTF-8 form in which a text reaches the database
  (for a JavaScript string with an unpaired surrogate, which has no such form, the driver
  sends U+FFFD in its place; the model takes the text as it is sent).

  The three PostgreSQL enums of the schema. A column of an enum type holds one of the
  labels and nothing else, so each enum is a datatype; the label functions give the string
  tokens that travel over the wire and that the TypeScript code compares with \<open>===\<close>.
\<close>

datatype user_role = Student | Admin
datatype complaint_status = Pending | Inprogress | Resolved
datatype complaint_category = Maintenance | Food | Cleanliness | Security | Wifi | Other

fun role_label :: "user_role \<Rightarrow> string" where
  "role_label Student = ''student''"
| "role_label Admin = ''admin''"

fun status_label :: "complaint_status \<Rightarrow> string" where
  "status_label Pending = ''pending''"
| "status_label Inprogress = ''inprogress''"
| "status_label Resolved = ''resolved''"

fun category_label :: "complaint_category \<Rightarrow> string" where
  "category_label Maintenance = ''maintenance''"
| "category_label Food = ''food''"
| "category_label Cleanliness = ''cleanliness''"
| "category_label Security = ''security''"
| "category_label Wifi = ''wifi''"
| "category_label Other = ''other''"

text \<open>Reading a label back: what \<open>z.enum\<close> accepts and what the database's enum input
  function accepts. \<open>None\<close> is "not one of the labels".\<close>

definition role_of_label :: "string \<Rightarrow> user_role option" where
  "role_of_label s =
     (if s = ''student'' then Some Student
      else if s = ''admin'' then Some Admin
      else None)"

definition status_of_label :: "string \<Rightarrow> complaint_status option" where
  "status_of_label s =
     (if s = ''pending'' then Some Pending
      else if s = ''inprogress'' then Some Inprogress
      else if s = ''resolved'' then Some Resolved
      else None)"

definition category_of_label :: "string \<Rightarrow> complaint_category option" where
  "category_of_label s =
     (if s = ''maintenance'' then Some Maintenance
      else if s = ''food'' then Some Food
      else if s = ''cleanliness'' then Some Cleanliness
      else if s = ''security'' then Some Security
      else if s = ''wifi'' then Some Wifi
      else if s = ''other'' then Some Other
      else None)"

text \<open>Timestamps are clock readings (milliseconds since the epoch).\<close>

type_synonym timestamp = int

text \<open>A row of table \<open>users\<close>. \<open>u_password\<close> is the column \<open>password\<close>: it holds the
  salted hash produced by \<open>hashPassword\<close>, never the plaintext. Nullable columns are options.\<close>

record user =
  u_id :: string
  u_username :: string
  u_password :: string
  u_name :: string
  u_role :: user_role
  u_roomNumber :: "string option"
  u_collegeEmail :: "string option"
  u_createdAt :: timestamp

text \<open>A row of table \<open>complaints\<close>.\<close>

record complaint =
  c_id :: string
  c_studentId :: string
  c_subject :: string
  c_description :: string
  c_category :: complaint_category
  c_roomNumber :: string
  c_status :: complaint_status
  c_adminResponse :: "string option"
  c_createdAt :: timestamp
  c_updatedAt :: timestamp

text \<open>The two tables, in physical row order.\<close>

record db =
  users :: "user list"
  complaints :: "complaint list"

section \<open>The environment of a request\<close>

text \<open>
  What a request reads from outside the program, made explicit so that the model is a
  function: the clock of the server process (\<open>new Date()\<close>), the clock of the database
  (\<open>now()\<close>, the default of the \<open>created_at\<close> and \<open>updated_at\<close> columns), the identifier
  drawn by \<open>gen_random_uuid()\<close> and the 16 bytes drawn by \<open>randomBytes(16)\<close>. A request
  makes at most one insert and hashes at most one password, so one reading of each suffices.
\<close>

record env =
  app_now :: timestamp
  db_now :: timestamp
  uuid :: string
  salt_bytes :: string

text \<open>
  What the code relies on and the repository does not define: \<open>scrypt\<close> (password and salt
  to the bytes of the derived key), the e-mail pattern behind zod's \<open>z.string().email()\<close>,
  and which keys PostgreSQL can enter into a b-tree index (an entry is limited to about a
  third of a page; a longer key is refused with SQLSTATE 54000). They are parameters of the
  model.
\<close>

record lib =
  scrypt :: "string \<Rightarrow> string \<Rightarrow> string"
  isEmail :: "string \<Rightarrow> bool"
  index_fits :: "string \<Rightarrow> bool"

section \<open>Storage (server/storage.ts)\<close>

text \<open>Errors the database raises; each surfaces in the caller as a thrown exception.\<close>

datatype db_error =
    UniqueViolation string
  | ForeignKeyViolation string
  | InvalidEnumLabel string
  | InvalidText
  | IndexRowTooLarge string

text \<open>
  PostgreSQL refuses a text value that holds the character U+0000, as a parameter of a
  query and as a value to store (SQLSTATE 22021, error \<open>InvalidText\<close>). So no stored text
  holds that character, and a key that holds it is the key of no row: a lookup by key
  raises when its key holds U+0000 and, as it must, matches nothing.
\<close>

definition has_nul :: "string \<Rightarrow> bool" where
  "has_nul s = (CHR 0x00 \<in> set s)"

definition opt_has_nul :: "string option \<Rightarrow> bool" where
  "opt_has_nul v = (case v of None \<Rightarrow> False | Some s \<Rightarrow> has_nul s)"

text \<open>\<open>InsertUser\<close>: the output type of \<open>insertUserSchema\<close>. An omitted role lets the
  column default apply; an omitted or null room number is stored as NULL.\<close>

record insert_user =
  iu_username :: string
  iu_password :: string
  iu_name :: string
  iu_role :: "user_role option"
  iu_roomNumber :: "string option"
  iu_collegeEmail :: string

text \<open>\<open>InsertComplaint\<close>: the output type of \<open>insertComplaintSchema\<close>.\<close>

record insert_complaint =
  ic_subject :: string
  ic_description :: string
  ic_category :: complaint_category
  ic_roomNumber :: string

text \<open>\<open>UpdateComplaint\<close>: both fields optional; \<open>None\<close> is \<open>undefined\<close> (the column is
  left alone by \<open>.set\<close>), \<open>Some None\<close> is an explicit \<open>null\<close> admin response.\<close>

record update_complaint =
  uc_status :: "complaint_status option"
  uc_adminResponse :: "string option option"

text \<open>The owner projection selected by the two joined queries.\<close>

record student_projection =
  s_id :: string
  s_name :: string
  s_username :: string
  s_roomNumber :: "string option"

type_synonym complaint_with_student = "complaint \<times> student_projection option"

text \<open>\<open>getUser\<close>, \<open>getUserByUsername\<close>: the first row of a SELECT by key, or
  \<open>undefined\<close>.\<close>

definition getUser :: "db \<Rightarrow> string \<Rightarrow> db_error + user option" where
  "getUser d ident =
     (case find (\<lambda>u. u_id u = ident) (users d) of
        Some u \<Rightarrow> Inr (Some u)
      | None \<Rightarrow> if has_nul ident then Inl InvalidText else Inr None)"

definition getUserByUsername :: "db \<Rightarrow> string \<Rightarrow> db_error + user option" where
  "getUserByUsername d uname =
     (case find (\<lambda>u. u_username u = uname) (users d) of
        Some u \<Rightarrow> Inr (Some u)
      | None \<Rightarrow> if has_nul uname then Inl InvalidText else Inr None)"

text \<open>\<open>createUser\<close>: one INSERT with RETURNING. The database checks the text values, the
  primary key and the unique constraint on \<open>username\<close>, and enters the username into the
  index of that constraint; the id and the creation time are column defaults.\<close>

definition createUser :: "lib \<Rightarrow> env \<Rightarrow> db \<Rightarrow> insert_user \<Rightarrow> db_error + (user \<times> db)" where
  "createUser l e d iu =
     (let row = \<lparr> u_id = uuid e,
                  u_username = iu_username iu,
                  u_password = iu_password iu,
                  u_name = iu_name iu,
                  u_role = (case iu_role iu of None \<Rightarrow> Student | Some r \<Rightarrow> r),
                  u_roomNumber = iu_roomNumber iu,
                  u_collegeEmail = Some (iu_collegeEmail iu),
                  u_createdAt = db_now e \<rparr>
      in if has_nul (iu_username iu) \<or> has_nul (iu_password iu) \<or> has_nul (iu_name iu)
            \<or> opt_has_nul (iu_roomNumber iu) \<or> has_nul (iu_collegeEmail iu)
           then Inl InvalidText
         else if uuid e \<in> set (map u_id (users d)) then Inl (UniqueViolation ''users_pkey'')
         else if iu_username iu \<in> set (map u_username (users d))
           then Inl (UniqueViolation ''users_username_unique'')
         else if \<not> index_fits l (iu_username iu)
           then Inl (IndexRowTooLarge ''users_username_unique'')
         else Inr (row, d\<lparr>users := users d @ [row]\<rparr>))"

text \<open>\<open>deleteUser\<close>: DELETE by id, reporting \<open>rowCount > 0\<close>. Column
  \<open>complaints.student_id\<close> references \<open>users.id\<close> with no ON DELETE action, so the database
  refuses to delete a row that a complaint still references.\<close>

definition deleteUser :: "db \<Rightarrow> string \<Rightarrow> db_error + (bool \<times> db)" where
  "deleteUser d ident =
     (if ident \<in> set (map u_id (users d)) then
        (if ident \<in> set (map c_studentId (complaints d))
           then Inl (ForeignKeyViolation ''complaints_student_id_users_id_fk'')
         else Inr (True, d\<lparr>users := filter (\<lambda>u. u_id u \<noteq> ident) (users d)\<rparr>))
      else if has_nul ident then Inl InvalidText
      else Inr (False, d))"

text \<open>\<open>createComplaint\<close>: inserts the validated fields, the owner id and
  \<open>updatedAt: new Date()\<close>; id, status, admin response and \<open>created_at\<close> take the column
  defaults (a fresh uuid, \<open>pending\<close>, NULL, the database's \<open>now()\<close>).\<close>

definition createComplaint ::
  "env \<Rightarrow> db \<Rightarrow> insert_complaint \<Rightarrow> string \<Rightarrow> db_error + (complaint \<times> db)" where
  "createComplaint e d ic studentId =
     (let row = \<lparr> c_id = uuid e,
                  c_studentId = studentId,
                  c_subject = ic_subject ic,
                  c_description = ic_description ic,
                  c_category = ic_category ic,
                  c_roomNumber = ic_roomNumber ic,
                  c_status = Pending,
                  c_adminResponse = None,
                  c_createdAt = db_now e,
                  c_updatedAt = app_now e \<rparr>
      in if has_nul (ic_subject ic) \<or> has_nul (ic_description ic) \<or> has_nul (ic_roomNumber ic)
           then Inl InvalidText
         else if studentId \<notin> set (map u_id (users d))
           then Inl (if has_nul studentId then InvalidText
                     else ForeignKeyViolation ''complaints_student_id_users_id_fk'')
         else if uuid e \<in> set (map c_id (complaints d)) then Inl (UniqueViolation ''complaints_pkey'')
         else Inr (row, d\<lparr>complaints := complaints d @ [row]\<rparr>))"

text \<open>ORDER BY \<open>created_at\<close> DESC. SQL leaves the order of rows with equal keys open; the
  model keeps them in table order, and no statement below depends on that choice.\<close>

definition newest_first :: "('a \<Rightarrow> timestamp) \<Rightarrow> 'a list \<Rightarrow> 'a list" where
  "newest_first key xs = sort_key (\<lambda>x. - key x) xs"

definition getComplaintsByStudent :: "db \<Rightarrow> string \<Rightarrow> db_error + complaint list" where
  "getComplaintsByStudent d studentId =
     (let rows = filter (\<lambda>c. c_studentId c = studentId) (complaints d)
      in if rows = [] \<and> has_nul studentId then Inl InvalidText
         else Inr (newest_first c_createdAt rows))"

text \<open>\<open>updateComplaintStatus\<close>: UPDATE ... SET the given fields and
  \<open>updatedAt: new Date()\<close> WHERE id matches, RETURNING the updated rows; the result is the
  first returned row or \<open>undefined\<close>. The admin response is a text value to store, the id
  is a key.\<close>

definition apply_update :: "env \<Rightarrow> update_complaint \<Rightarrow> complaint \<Rightarrow> complaint" where
  "apply_update e u c =
     c\<lparr> c_status := (case uc_status u of None \<Rightarrow> c_status c | Some s \<Rightarrow> s),
        c_adminResponse := (case uc_adminResponse u of None \<Rightarrow> c_adminResponse c | Some r \<Rightarrow> r),
        c_updatedAt := app_now e \<rparr>"

definition response_has_nul :: "update_complaint \<Rightarrow> bool" where
  "response_has_nul u = (case uc_adminResponse u of None \<Rightarrow> False | Some r \<Rightarrow> opt_has_nul r)"

definition updateComplaintStatus ::
  "env \<Rightarrow> db \<Rightarrow> string \<Rightarrow> update_complaint \<Rightarrow> db_error + (complaint option \<times> db)" where
  "updateComplaintStatus e d ident u =
     (if response_has_nul u then Inl InvalidText
      else if ident \<notin> set (map c_id (complaints d)) \<and> has_nul ident then Inl InvalidText
      else
        (let d' = d\<lparr>complaints :=
                     map (\<lambda>c. if c_id c = ident then apply_update e u c else c) (complaints d)\<rparr>
         in Inr (find (\<lambda>c. c_id c = ident) (complaints d'), d')))"

text \<open>The store after a storage call: a call that raises leaves it as it was.\<close>

definition store_after :: "db \<Rightarrow> db_error + ('a \<times> db) \<Rightarrow> db" where
  "store_after d res = (case res of Inl err \<Rightarrow> d | Inr (x, d') \<Rightarrow> d')"

subsection \<open>Pattern matching of the database: ILIKE\<close>

text \<open>
  \<open>ilike(column, pattern)\<close> is PostgreSQL's case-insensitive LIKE. In a pattern \<open>%\<close> matches
  any run of characters (also the empty one), \<open>_\<close> matches exactly one character, a
  backslash makes the next pattern character literal, and every other character matches
  itself. A pattern that ends in a lone backslash is an error in PostgreSQL when the
  matcher reaches it with text left; the patterns built below end in \<open>%\<close>, so that case
  (answered \<open>False\<close> here) is never reached by them.
\<close>

fun like_match :: "string \<Rightarrow> string \<Rightarrow> bool" where
  "like_match [] s = (s = [])"
| "like_match (p # ps) [] = (p = CHR ''%'' \<and> like_match ps [])"
| "like_match (p # ps) (c # cs) =
     (if p = CHR ''%'' then like_match ps (c # cs) \<or> like_match (p # ps) cs
      else if p = CHR ''_'' then like_match ps cs
      else if p = CHR 0x5C then (case ps of [] \<Rightarrow> False | q # qs \<Rightarrow> q = c \<and> like_match qs cs)
      else p = c \<and> like_match ps cs)"

text \<open>Case folding, here of the ASCII letters; the database also folds letters beyond
  ASCII, as its locale says.\<close>

definition lower_char :: "char \<Rightarrow> char" where
  "lower_char c =
     (let n = (of_char c :: nat) in if 65 \<le> n \<and> n \<le> 90 then char_of (n + 32) else c)"

definition lower :: "string \<Rightarrow> string" where
  "lower s = map lower_char s"

definition ilike :: "string \<Rightarrow> string \<Rightarrow> bool" where
  "ilike s pat = like_match (lower pat) (lower s)"

text \<open>The template literal \<open>`%${search}%`\<close>.\<close>

definition search_pattern :: "string \<Rightarrow> string" where
  "search_pattern search = ''%'' @ search @ ''%''"

text \<open>JavaScript truthiness of an optional string: \<open>undefined\<close> and \<open>""\<close> are falsy.\<close>

definition truthy :: "string option \<Rightarrow> bool" where
  "truthy v = (case v of None \<Rightarrow> False | Some s \<Rightarrow> s \<noteq> [])"

subsection \<open>Listing queries\<close>

definition project_student :: "user \<Rightarrow> student_projection" where
  "project_student u =
     \<lparr> s_id = u_id u, s_name = u_name u, s_username = u_username u,
       s_roomNumber = u_roomNumber u \<rparr>"

text \<open>\<open>complaints LEFT JOIN users ON complaints.student_id = users.id\<close>, selecting the
  complaint columns and the nested owner object, which is null when no user row joins.\<close>

definition leftJoin_users :: "db \<Rightarrow> complaint_with_student list" where
  "leftJoin_users d =
     concat (map (\<lambda>c. case filter (\<lambda>u. u_id u = c_studentId c) (users d) of
                         [] \<Rightarrow> [(c, None)]
                       | us \<Rightarrow> map (\<lambda>u. (c, Some (project_student u))) us)
                 (complaints d))"

record complaint_filters =
  f_status :: "string option"
  f_category :: "string option"
  f_search :: "string option"

text \<open>A filter value is sent to the database as a parameter compared with an enum column:
  a string that is not a label of the enum makes the query fail.\<close>

definition status_condition ::
  "string option \<Rightarrow> db_error + (complaint_with_student \<Rightarrow> bool)" where
  "status_condition v =
     (if truthy v then
        (case status_of_label (case v of Some s \<Rightarrow> s | None \<Rightarrow> []) of
           None \<Rightarrow> Inl (InvalidEnumLabel ''complaint_status'')
         | Some st \<Rightarrow> Inr (\<lambda>r. c_status (fst r) = st))
      else Inr (\<lambda>r. True))"

definition category_condition ::
  "string option \<Rightarrow> db_error + (complaint_with_student \<Rightarrow> bool)" where
  "category_condition v =
     (if truthy v then
        (case category_of_label (case v of Some s \<Rightarrow> s | None \<Rightarrow> []) of
           None \<Rightarrow> Inl (InvalidEnumLabel ''complaint_category'')
         | Some cat \<Rightarrow> Inr (\<lambda>r. c_category (fst r) = cat))
      else Inr (\<lambda>r. True))"

text \<open>The \<open>or(...)\<close> of three \<open>ilike\<close>s; on a row without owner the third is NULL, which
  does not make the row pass.\<close>

definition search_condition :: "string option \<Rightarrow> complaint_with_student \<Rightarrow> bool" where
  "search_condition v r =
     (if truthy v then
        (let pat = search_pattern (case v of Some s \<Rightarrow> s | None \<Rightarrow> []) in
           ilike (c_subject (fst r)) pat
         \<or> ilike (c_description (fst r)) pat
         \<or> (case snd r of None \<Rightarrow> False | Some st \<Rightarrow> ilike (s_name st) pat))
      else True)"

text \<open>The pattern is a text parameter of the query when the search text is used.\<close>

definition search_refused :: "string option \<Rightarrow> bool" where
  "search_refused v = (truthy v \<and> opt_has_nul v)"

definition getAllComplaints ::
  "db \<Rightarrow> complaint_filters \<Rightarrow> db_error + complaint_with_student list" where
  "getAllComplaints d f =
     (case status_condition (f_status f) of
        Inl err \<Rightarrow> Inl err
      | Inr by_status \<Rightarrow>
          (case category_condition (f_category f) of
             Inl err \<Rightarrow> Inl err
           | Inr by_category \<Rightarrow>
               (if search_refused (f_search f) then Inl InvalidText
                else
                  Inr (newest_first (\<lambda>r. c_createdAt (fst r))
                         (filter (\<lambda>r. by_status r \<and> by_category r
                                       \<and> search_condition (f_search f) r)
                            (leftJoin_users d))))))"

definition getComplaintById :: "db \<Rightarrow> string \<Rightarrow> db_error + complaint_with_student option" where
  "getComplaintById d ident =
     (case find (\<lambda>r. c_id (fst r) = ident) (leftJoin_users d) of
        Some r \<Rightarrow> Inr (Some r)
      | None \<Rightarrow> if has_nul ident then Inl InvalidText else Inr None)"

record user_filters =
  uf_role :: "string option"
  uf_search :: "string option"

definition role_condition :: "string option \<Rightarrow> db_error + (user \<Rightarrow> bool)" where
  "role_condition v =
     (if truthy v then
        (case role_of_label (case v of Some s \<Rightarrow> s | None \<Rightarrow> []) of
           None \<Rightarrow> Inl (InvalidEnumLabel ''user_role'')
         | Some r \<Rightarrow> Inr (\<lambda>u. u_role u = r))
      else Inr (\<lambda>u. True))"

definition user_search_condition :: "string option \<Rightarrow> user \<Rightarrow> bool" where
  "user_search_condition v u =
     (if truthy v then
        (let pat = search_pattern (case v of Some s \<Rightarrow> s | None \<Rightarrow> []) in
           ilike (u_name u) pat \<or> ilike (u_username u) pat)
      else True)"

text \<open>\<open>getAllUsers\<close>: \<open>db.select().from(users)\<close> selects every column of the row, the
  password column included.\<close>

definition getAllUsers :: "db \<Rightarrow> user_filters \<Rightarrow> db_error + user list" where
  "getAllUsers d f =
     (case role_condition (uf_role f) of
        Inl err \<Rightarrow> Inl err
      | Inr by_role \<Rightarrow>
          (if search_refused (uf_search f) then Inl InvalidText
           else
             Inr (newest_first u_createdAt
                    (filter (\<lambda>u. by_role u \<and> user_search_condition (uf_search f) u)
                       (users d)))))"

subsection \<open>Statistics\<close>

record complaint_stats =
  total :: nat
  pending :: nat
  inprogress :: nat
  resolved :: nat

text \<open>\<open>getComplaintStats\<close>: selects every complaint and counts in JavaScript, comparing the
  status token with the three literals.\<close>

definition getComplaintStats :: "db \<Rightarrow> complaint_stats" where
  "getComplaintStats d =
     (let allComplaints = complaints d in
      \<lparr> total = length allComplaints,
        pending = length (filter (\<lambda>c. status_label (c_status c) = ''pending'') allComplaints),
        inprogress = length (filter (\<lambda>c. status_label (c_status c) = ''inprogress'') allComplaints),
        resolved = length (filter (\<lambda>c. status_label (c_status c) = ''resolved'') allComplaints) \<rparr>)"

record student_stats =
  st_total :: nat
  st_pending :: nat
  st_resolved :: nat

definition getStudentComplaintStats :: "db \<Rightarrow> string \<Rightarrow> db_error + student_stats" where
  "getStudentComplaintStats d studentId =
     (let studentComplaints = filter (\<lambda>c. c_studentId c = studentId) (complaints d) in
      if studentComplaints = [] \<and> has_nul studentId then Inl InvalidText
      else
        Inr \<lparr> st_total = length studentComplaints,
              st_pending =
                length (filter (\<lambda>c. status_label (c_status c) = ''pending'') studentComplaints),
              st_resolved =
                length (filter (\<lambda>c. status_label (c_status c) = ''resolved'') studentComplaints) \<rparr>)"

section \<open>JSON values and the zod schemas (shared/schema.ts)\<close>

text \<open>A request body as \<open>express.json()\<close> hands it over, and a response payload as
  \<open>res.json\<close> sends it. An object is its list of properties; \<open>JDate\<close> is a \<open>Date\<close>, which
  \<open>res.json\<close> writes as an ISO-8601 string.\<close>

datatype json =
    JNull
  | JBool bool
  | JNum int
  | JStr string
  | JDate timestamp
  | JArr "json list"
  | JObj "(string \<times> json) list"

text \<open>A property of a parsed body; \<open>None\<close> is \<open>undefined\<close>. Properties the schema does not
  name are never read: zod strips them.\<close>

definition property :: "json \<Rightarrow> string \<Rightarrow> json option" where
  "property j k = (case j of JObj kvs \<Rightarrow> map_of kvs k | _ \<Rightarrow> None)"

definition is_object :: "json \<Rightarrow> bool" where
  "is_object j = (case j of JObj kvs \<Rightarrow> True | _ \<Rightarrow> False)"

text \<open>\<open>z.string()\<close>: any string, the empty one included.\<close>

definition z_string :: "json option \<Rightarrow> string option" where
  "z_string v = (case v of Some (JStr s) \<Rightarrow> Some s | _ \<Rightarrow> None)"

text \<open>\<open>z.string().nullable().optional()\<close>, for a nullable text column. The outer option is
  the verdict; inside, \<open>None\<close> is \<open>undefined\<close> and \<open>Some None\<close> is \<open>null\<close>.\<close>

definition z_string_nullable_optional :: "json option \<Rightarrow> string option option option" where
  "z_string_nullable_optional v =
     (case v of
        None \<Rightarrow> Some None
      | Some JNull \<Rightarrow> Some (Some None)
      | Some (JStr s) \<Rightarrow> Some (Some (Some s))
      | _ \<Rightarrow> None)"

text \<open>\<open>z.enum([...])\<close> over the labels of an enum, and its \<open>.optional()\<close> form for a column
  with a default.\<close>

definition z_enum :: "(string \<Rightarrow> 'a option) \<Rightarrow> json option \<Rightarrow> 'a option" where
  "z_enum of_label v = (case v of Some (JStr s) \<Rightarrow> of_label s | _ \<Rightarrow> None)"

definition z_enum_optional :: "(string \<Rightarrow> 'a option) \<Rightarrow> json option \<Rightarrow> 'a option option" where
  "z_enum_optional of_label v =
     (case v of None \<Rightarrow> Some None | Some j \<Rightarrow> map_option Some (z_enum of_label (Some j)))"

definition endsWith :: "string \<Rightarrow> string \<Rightarrow> bool" where
  "endsWith s suf = (length suf \<le> length s \<and> drop (length s - length suf) s = suf)"

text \<open>The \<open>collegeEmail\<close> field of \<open>insertUserSchema\<close>: an e-mail address whose end is one
  of three suffixes.\<close>

definition z_collegeEmail :: "lib \<Rightarrow> json option \<Rightarrow> string option" where
  "z_collegeEmail l v =
     (case v of
        Some (JStr s) \<Rightarrow>
          (if isEmail l s
              \<and> (endsWith s ''@college.edu'' \<or> endsWith s ''@university.edu'' \<or> endsWith s ''@edu'')
           then Some s else None)
      | _ \<Rightarrow> None)"

text \<open>The names of the fields a parse rejects stand for the issues of the \<open>ZodError\<close>
  (zod may report more than one issue for a field; only the \<open>errors\<close> array of the
  400 body would differ).\<close>

definition issue :: "string \<Rightarrow> 'a option \<Rightarrow> string list" where
  "issue k v = (case v of None \<Rightarrow> [k] | Some x \<Rightarrow> [])"

text \<open>\<open>insertUserSchema.parse\<close>: the insert schema of \<open>users\<close> without \<open>id\<close> and
  \<open>createdAt\<close>; \<open>username\<close>, \<open>password\<close>, \<open>name\<close> are required strings, \<open>role\<close> is an
  optional enum, \<open>roomNumber\<close> is optional and nullable.\<close>

definition insertUserSchema_parse :: "lib \<Rightarrow> json \<Rightarrow> string list + insert_user" where
  "insertUserSchema_parse l b =
     (if \<not> is_object b then Inl [[]]
      else
        (case (z_string (property b ''username''), z_string (property b ''password''),
               z_string (property b ''name''), z_enum_optional role_of_label (property b ''role''),
               z_string_nullable_optional (property b ''roomNumber''),
               z_collegeEmail l (property b ''collegeEmail'')) of
           (Some un, Some pw, Some nm, Some r, Some rn, Some em) \<Rightarrow>
             Inr \<lparr> iu_username = un, iu_password = pw, iu_name = nm, iu_role = r,
                   iu_roomNumber = (case rn of None \<Rightarrow> None | Some x \<Rightarrow> x),
                   iu_collegeEmail = em \<rparr>
         | (un, pw, nm, r, rn, em) \<Rightarrow>
             Inl (issue ''username'' un @ issue ''password'' pw @ issue ''name'' nm
                  @ issue ''role'' r @ issue ''roomNumber'' rn @ issue ''collegeEmail'' em)))"

text \<open>\<open>insertComplaintSchema.parse\<close>: four required fields; \<open>id\<close>, \<open>studentId\<close>, \<open>status\<close>,
  \<open>adminResponse\<close> and the timestamps are omitted from the schema, so a body cannot set them.\<close>

definition insertComplaintSchema_parse :: "json \<Rightarrow> string list + insert_complaint" where
  "insertComplaintSchema_parse b =
     (if \<not> is_object b then Inl [[]]
      else
        (case (z_string (property b ''subject''), z_string (property b ''description''),
               z_enum category_of_label (property b ''category''),
               z_string (property b ''roomNumber'')) of
           (Some sj, Some ds, Some cat, Some rn) \<Rightarrow>
             Inr \<lparr> ic_subject = sj, ic_description = ds, ic_category = cat, ic_roomNumber = rn \<rparr>
         | (sj, ds, cat, rn) \<Rightarrow>
             Inl (issue ''subject'' sj @ issue ''description'' ds @ issue ''category'' cat
                  @ issue ''roomNumber'' rn)))"

text \<open>\<open>updateComplaintSchema.parse\<close>: \<open>status\<close> (optional, it has a default) and
  \<open>adminResponse\<close> (optional and nullable).\<close>

definition updateComplaintSchema_parse :: "json \<Rightarrow> string list + update_complaint" where
  "updateComplaintSchema_parse b =
     (if \<not> is_object b then Inl [[]]
      else
        (case (z_enum_optional status_of_label (property b ''status''),
               z_string_nullable_optional (property b ''adminResponse'')) of
           (Some st, Some ar) \<Rightarrow> Inr \<lparr> uc_status = st, uc_adminResponse = ar \<rparr>
         | (st, ar) \<Rightarrow> Inl (issue ''status'' st @ issue ''adminResponse'' ar)))"

subsection \<open>Response payloads\<close>

definition json_opt :: "string option \<Rightarrow> json" where
  "json_opt v = (case v of None \<Rightarrow> JNull | Some s \<Rightarrow> JStr s)"

text \<open>A user row as \<open>res.json(user)\<close> writes it: every column of the row.\<close>

definition json_of_user :: "user \<Rightarrow> json" where
  "json_of_user u =
     JObj [(''id'', JStr (u_id u)),
           (''username'', JStr (u_username u)),
           (''password'', JStr (u_password u)),
           (''name'', JStr (u_name u)),
           (''role'', JStr (role_label (u_role u))),
           (''roomNumber'', json_opt (u_roomNumber u)),
           (''collegeEmail'', json_opt (u_collegeEmail u)),
           (''createdAt'', JDate (u_createdAt u))]"

definition complaint_props :: "complaint \<Rightarrow> (string \<times> json) list" where
  "complaint_props c =
     [(''id'', JStr (c_id c)),
      (''studentId'', JStr (c_studentId c)),
      (''subject'', JStr (c_subject c)),
      (''description'', JStr (c_description c)),
      (''category'', JStr (category_label (c_category c))),
      (''roomNumber'', JStr (c_roomNumber c)),
      (''status'', JStr (status_label (c_status c))),
      (''adminResponse'', json_opt (c_adminResponse c)),
      (''createdAt'', JDate (c_createdAt c)),
      (''updatedAt'', JDate (c_updatedAt c))]"

definition json_of_complaint :: "complaint \<Rightarrow> json" where
  "json_of_complaint c = JObj (complaint_props c)"

definition json_of_student :: "student_projection option \<Rightarrow> json" where
  "json_of_student v =
     (case v of
        None \<Rightarrow> JNull
      | Some st \<Rightarrow>
          JObj [(''id'', JStr (s_id st)), (''name'', JStr (s_name st)),
                (''username'', JStr (s_username st)),
                (''roomNumber'', json_opt (s_roomNumber st))])"

definition json_of_complaint_with_student :: "complaint_with_student \<Rightarrow> json" where
  "json_of_complaint_with_student r =
     JObj (complaint_props (fst r) @ [(''student'', json_of_student (snd r))])"

definition json_of_stats :: "complaint_stats \<Rightarrow> json" where
  "json_of_stats st =
     JObj [(''total'', JNum (int (total st))), (''pending'', JNum (int (pending st))),
           (''inprogress'', JNum (int (inprogress st))),
           (''resolved'', JNum (int (resolved st)))]"

definition json_of_student_stats :: "student_stats \<Rightarrow> json" where
  "json_of_student_stats st =
     JObj [(''total'', JNum (int (st_total st))), (''pending'', JNum (int (st_pending st))),
           (''resolved'', JNum (int (st_resolved st)))]"

definition message :: "string \<Rightarrow> json" where
  "message m = JObj [(''message'', JStr m)]"

definition invalid_input :: "string list \<Rightarrow> json" where
  "invalid_input issues =
     JObj [(''message'', JStr ''Invalid input data''), (''errors'', JArr (map JStr issues))]"

section \<open>Authentication (server/auth.ts)\<close>

text \<open>A buffer is its list of bytes. \<open>to_hex\<close> is \<open>buf.toString("hex")\<close>: two lower-case
  hexadecimal digits per byte.\<close>

definition hex_digit :: "nat \<Rightarrow> char" where
  "hex_digit n = (if n < 10 then char_of (48 + n) else char_of (87 + n))"

definition to_hex :: "string \<Rightarrow> string" where
  "to_hex bs =
     concat (map (\<lambda>b. [hex_digit ((of_char b :: nat) div 16), hex_digit ((of_char b :: nat) mod 16)])
               bs)"

text \<open>\<open>from_hex\<close> is \<open>Buffer.from(s, "hex")\<close>: pairs of hexadecimal digits of either case
  are decoded, up to the first pair that is not one; a single digit left over is dropped.\<close>

definition hex_val :: "char \<Rightarrow> nat option" where
  "hex_val c =
     (let n = (of_char c :: nat) in
      if 48 \<le> n \<and> n \<le> 57 then Some (n - 48)
      else if 97 \<le> n \<and> n \<le> 102 then Some (n - 87)
      else if 65 \<le> n \<and> n \<le> 70 then Some (n - 55)
      else None)"

fun from_hex :: "string \<Rightarrow> string" where
  "from_hex (a # b # rest) =
     (case (hex_val a, hex_val b) of
        (Some x, Some y) \<Rightarrow> char_of (16 * x + y) # from_hex rest
      | _ \<Rightarrow> [])"
| "from_hex [a] = []"
| "from_hex [] = []"

text \<open>\<open>hashPassword\<close>: the salt is the 16 random bytes in hexadecimal; the result is the
  scrypt key in hexadecimal, a dot, the salt.\<close>

definition hashPassword :: "lib \<Rightarrow> env \<Rightarrow> string \<Rightarrow> string" where
  "hashPassword l e pw =
     (let slt = to_hex (salt_bytes e) in to_hex (scrypt l pw slt) @ ''.'' @ slt)"

text \<open>The first two pieces of \<open>stored.split(".")\<close>; the second is \<open>undefined\<close> when the
  string has no dot.\<close>

definition split_dot :: "string \<Rightarrow> string \<times> string option" where
  "split_dot stored =
     (takeWhile (\<lambda>c. c \<noteq> CHR ''.'') stored,
      case dropWhile (\<lambda>c. c \<noteq> CHR ''.'') stored of
        [] \<Rightarrow> None
      | dot # rest \<Rightarrow> Some (takeWhile (\<lambda>c. c \<noteq> CHR ''.'') rest))"

text \<open>\<open>comparePasswords\<close>: the stored digest is decoded from hexadecimal and compared
  with the scrypt key of the supplied password under the stored salt. \<open>scrypt\<close> throws on
  an undefined salt and \<open>timingSafeEqual\<close> throws on buffers of different lengths; \<open>None\<close>
  is that exception.\<close>

definition comparePasswords :: "lib \<Rightarrow> string \<Rightarrow> string \<Rightarrow> bool option" where
  "comparePasswords l supplied stored =
     (case split_dot stored of
        (hashed, None) \<Rightarrow> None
      | (hashed, Some slt) \<Rightarrow>
          (let hashedBuf = from_hex hashed;
               suppliedBuf = scrypt l supplied slt
           in if length hashedBuf \<noteq> length suppliedBuf then None
              else Some (hashedBuf = suppliedBuf)))"

section \<open>Requests, sessions and responses\<close>

text \<open>The calls a request makes on the storage object, in order.\<close>

datatype store_call =
    CallGetUser string
  | CallGetUserByUsername string
  | CallCreateUser insert_user
  | CallGetAllUsers user_filters
  | CallDeleteUser string
  | CallCreateComplaint insert_complaint string
  | CallGetComplaintsByStudent string
  | CallGetAllComplaints complaint_filters
  | CallGetComplaintById string
  | CallUpdateComplaintStatus string update_complaint
  | CallGetComplaintStats
  | CallGetStudentComplaintStats string

text \<open>What a handler does to the session: nothing, \<open>req.login(user)\<close> (the session then
  carries the user's id), or \<open>req.logout\<close> with \<open>session.destroy\<close>.\<close>

datatype session_effect = Keep | LogIn string | LogOut

record reply =
  r_status :: nat
  r_body :: json
  r_db :: db
  r_calls :: "store_call list"
  r_session :: session_effect

definition respond :: "nat \<Rightarrow> json \<Rightarrow> db \<Rightarrow> store_call list \<Rightarrow> reply" where
  "respond st b d cs = \<lparr> r_status = st, r_body = b, r_db = d, r_calls = cs, r_session = Keep \<rparr>"

text \<open>\<open>next(error)\<close>: the error goes to the error handler of the application, which answers
  with status 500.\<close>

definition next_error :: "db \<Rightarrow> store_call list \<Rightarrow> reply" where
  "next_error d cs = respond 500 (message ''Internal Server Error'') d cs"

text \<open>The operations of the API, one per route, as the route receives them: the body
  after \<open>express.json()\<close> has parsed it, the query, or the decoded path parameter (where
  \<open>%00\<close> has become U+0000). A login carries the two fields of the login form.\<close>

datatype request =
    Register json
  | Login "string option" "string option"
  | Logout
  | WhoAmI
  | PostComplaint json
  | GetMyComplaints
  | GetMyStats
  | GetComplaints complaint_filters
  | GetStats
  | GetComplaint string
  | PatchComplaint string json
  | GetUsers user_filters
  | PostUser json
  | DeleteUserById string

text \<open>\<open>passport.session()\<close> with \<open>deserializeUser\<close>: a session that carries a user id
  makes one \<open>getUser\<close> call; \<open>req.user\<close> is its result, and an error of the call is passed
  to \<open>done\<close>.\<close>

definition deserializeUser ::
  "db \<Rightarrow> string option \<Rightarrow> (db_error + user option) \<times> store_call list" where
  "deserializeUser d sess =
     (case sess of
        None \<Rightarrow> (Inr None, [])
      | Some ident \<Rightarrow> (getUser d ident, [CallGetUser ident]))"

section \<open>Routes (server/auth.ts, server/routes.ts)\<close>

text \<open>The two middlewares. \<open>None\<close> is \<open>next()\<close>, \<open>Some\<close> is the rejection sent.
  \<open>req.isAuthenticated()\<close> holds exactly when \<open>req.user\<close> is set.\<close>

definition requireAuth :: "user option \<Rightarrow> (nat \<times> json) option" where
  "requireAuth usr =
     (case usr of
        None \<Rightarrow> Some (401, message ''Not authenticated'')
      | Some u \<Rightarrow> None)"

definition requireAdmin :: "user option \<Rightarrow> (nat \<times> json) option" where
  "requireAdmin usr =
     (case usr of
        None \<Rightarrow> Some (403, message ''Admin access required'')
      | Some u \<Rightarrow>
          (if role_label (u_role u) \<noteq> ''admin'' then Some (403, message ''Admin access required'')
           else None))"

text \<open>A route registered behind a middleware: the handler runs only after \<open>next()\<close>.\<close>

definition guarded :: "(nat \<times> json) option \<Rightarrow> db \<Rightarrow> reply \<Rightarrow> reply" where
  "guarded g d r = (case g of Some (st, b) \<Rightarrow> respond st b d [] | None \<Rightarrow> r)"

definition not_student :: "user option \<Rightarrow> bool" where
  "not_student usr = (case usr of None \<Rightarrow> True | Some u \<Rightarrow> role_label (u_role u) \<noteq> ''student'')"

text \<open>POST /api/register and the body of POST /api/users: validate, look the username
  up, hash the password, insert. Only the registration logs the new user in.\<close>

definition create_account :: "lib \<Rightarrow> env \<Rightarrow> db \<Rightarrow> json \<Rightarrow> bool \<Rightarrow> reply" where
  "create_account l e d b login =
     (case insertUserSchema_parse l b of
        Inl issues \<Rightarrow> respond 400 (invalid_input issues) d []
      | Inr validatedData \<Rightarrow>
          (case getUserByUsername d (iu_username validatedData) of
             Inl err \<Rightarrow> next_error d [CallGetUserByUsername (iu_username validatedData)]
           | Inr (Some existingUser) \<Rightarrow>
               respond 400 (message ''Username already exists'') d
                 [CallGetUserByUsername (iu_username validatedData)]
           | Inr None \<Rightarrow>
               (let iu = validatedData\<lparr>iu_password := hashPassword l e (iu_password validatedData)\<rparr>;
                    cs = [CallGetUserByUsername (iu_username validatedData), CallCreateUser iu]
                in case createUser l e d iu of
                     Inl err \<Rightarrow> next_error d cs
                   | Inr (u, d') \<Rightarrow>
                       (respond 201 (json_of_user u) d' cs)
                         \<lparr> r_session := (if login then LogIn (u_id u) else Keep) \<rparr>)))"

definition register_handler :: "lib \<Rightarrow> env \<Rightarrow> db \<Rightarrow> json \<Rightarrow> reply" where
  "register_handler l e d b = create_account l e d b True"

text \<open>POST /api/login: the local strategy. passport-local fails with "Missing
  credentials" when a field is absent or empty, before the verify callback runs; an
  exception in the callback is passed to \<open>done\<close> and on to \<open>next\<close>.\<close>

definition login_handler :: "lib \<Rightarrow> db \<Rightarrow> string option \<Rightarrow> string option \<Rightarrow> reply" where
  "login_handler l d uname pw =
     (if \<not> truthy uname \<or> \<not> truthy pw then respond 401 (message ''Missing credentials'') d []
      else
        (let un = (case uname of Some s \<Rightarrow> s | None \<Rightarrow> []);
             p = (case pw of Some s \<Rightarrow> s | None \<Rightarrow> []);
             cs = [CallGetUserByUsername un]
         in case getUserByUsername d un of
              Inl err \<Rightarrow> next_error d cs
            | Inr None \<Rightarrow> respond 401 (message ''Invalid username or password'') d cs
            | Inr (Some u) \<Rightarrow>
                (case comparePasswords l p (u_password u) of
                   None \<Rightarrow> next_error d cs
                 | Some False \<Rightarrow> respond 401 (message ''Invalid username or password'') d cs
                 | Some True \<Rightarrow>
                     (respond 200 (json_of_user u) d cs)\<lparr> r_session := LogIn (u_id u) \<rparr>)))"

definition logout_handler :: "db \<Rightarrow> reply" where
  "logout_handler d = (respond 200 (JStr ''OK'') d [])\<lparr> r_session := LogOut \<rparr>"

definition whoami_handler :: "db \<Rightarrow> user option \<Rightarrow> reply" where
  "whoami_handler d usr =
     (case usr of
        None \<Rightarrow> respond 401 (JStr ''Unauthorized'') d []
      | Some u \<Rightarrow> respond 200 (json_of_user u) d [])"

text \<open>POST /api/complaints, behind \<open>requireAuth\<close>.\<close>

definition post_complaint_handler :: "env \<Rightarrow> db \<Rightarrow> user option \<Rightarrow> json \<Rightarrow> reply" where
  "post_complaint_handler e d usr b =
     (if not_student usr then respond 403 (message ''Only students can submit complaints'') d []
      else
        (case insertComplaintSchema_parse b of
           Inl issues \<Rightarrow> respond 400 (invalid_input issues) d []
         | Inr validatedData \<Rightarrow>
             (case usr of
                None \<Rightarrow> next_error d []
              | Some u \<Rightarrow>
                  (let cs = [CallCreateComplaint validatedData (u_id u)]
                   in case createComplaint e d validatedData (u_id u) of
                        Inl err \<Rightarrow> next_error d cs
                      | Inr (c, d') \<Rightarrow> respond 201 (json_of_complaint c) d' cs))))"

definition my_complaints_handler :: "db \<Rightarrow> user option \<Rightarrow> reply" where
  "my_complaints_handler d usr =
     (if not_student usr then respond 403 (message ''Only students can view their complaints'') d []
      else
        (case usr of
           None \<Rightarrow> next_error d []
         | Some u \<Rightarrow>
             (case getComplaintsByStudent d (u_id u) of
                Inl err \<Rightarrow> next_error d [CallGetComplaintsByStudent (u_id u)]
              | Inr rows \<Rightarrow>
                  respond 200 (JArr (map json_of_complaint rows)) d
                    [CallGetComplaintsByStudent (u_id u)])))"

definition my_stats_handler :: "db \<Rightarrow> user option \<Rightarrow> reply" where
  "my_stats_handler d usr =
     (if not_student usr then respond 403 (message ''Only students can view their stats'') d []
      else
        (case usr of
           None \<Rightarrow> next_error d []
         | Some u \<Rightarrow>
             (case getStudentComplaintStats d (u_id u) of
                Inl err \<Rightarrow> next_error d [CallGetStudentComplaintStats (u_id u)]
              | Inr stats \<Rightarrow>
                  respond 200 (json_of_student_stats stats) d
                    [CallGetStudentComplaintStats (u_id u)])))"

text \<open>The admin routes, each behind \<open>requireAdmin\<close>.\<close>

definition complaints_handler :: "db \<Rightarrow> complaint_filters \<Rightarrow> reply" where
  "complaints_handler d filters =
     (case getAllComplaints d filters of
        Inl err \<Rightarrow> next_error d [CallGetAllComplaints filters]
      | Inr rows \<Rightarrow>
          respond 200 (JArr (map json_of_complaint_with_student rows)) d
            [CallGetAllComplaints filters])"

definition stats_handler :: "db \<Rightarrow> reply" where
  "stats_handler d = respond 200 (json_of_stats (getComplaintStats d)) d [CallGetComplaintStats]"

definition complaint_handler :: "db \<Rightarrow> string \<Rightarrow> reply" where
  "complaint_handler d ident =
     (case getComplaintById d ident of
        Inl err \<Rightarrow> next_error d [CallGetComplaintById ident]
      | Inr None \<Rightarrow> respond 404 (message ''Complaint not found'') d [CallGetComplaintById ident]
      | Inr (Some r) \<Rightarrow>
          respond 200 (json_of_complaint_with_student r) d [CallGetComplaintById ident])"

definition patch_complaint_handler :: "env \<Rightarrow> db \<Rightarrow> string \<Rightarrow> json \<Rightarrow> reply" where
  "patch_complaint_handler e d ident b =
     (case updateComplaintSchema_parse b of
        Inl issues \<Rightarrow> respond 400 (invalid_input issues) d []
      | Inr validatedData \<Rightarrow>
          (let cs = [CallUpdateComplaintStatus ident validatedData]
           in case updateComplaintStatus e d ident validatedData of
                Inl err \<Rightarrow> next_error d cs
              | Inr (None, d') \<Rightarrow> respond 404 (message ''Complaint not found'') d' cs
              | Inr (Some c, d') \<Rightarrow> respond 200 (json_of_complaint c) d' cs))"

definition users_handler :: "db \<Rightarrow> user_filters \<Rightarrow> reply" where
  "users_handler d filters =
     (case getAllUsers d filters of
        Inl err \<Rightarrow> next_error d [CallGetAllUsers filters]
      | Inr us \<Rightarrow> respond 200 (JArr (map json_of_user us)) d [CallGetAllUsers filters])"

definition post_user_handler :: "lib \<Rightarrow> env \<Rightarrow> db \<Rightarrow> json \<Rightarrow> reply" where
  "post_user_handler l e d b = create_account l e d b False"

definition delete_user_handler :: "db \<Rightarrow> string \<Rightarrow> reply" where
  "delete_user_handler d ident =
     (case deleteUser d ident of
        Inl err \<Rightarrow> next_error d [CallDeleteUser ident]
      | Inr (success, d') \<Rightarrow>
          (if \<not> success then respond 404 (message ''User not found'') d' [CallDeleteUser ident]
           else respond 204 JNull d' [CallDeleteUser ident]))"

text \<open>The middleware each route is registered with.\<close>

datatype middleware = NoMiddleware | RequireAuth | RequireAdmin

fun middleware_of :: "request \<Rightarrow> middleware" where
  "middleware_of (Register b) = NoMiddleware"
| "middleware_of (Login uname pw) = NoMiddleware"
| "middleware_of Logout = NoMiddleware"
| "middleware_of WhoAmI = NoMiddleware"
| "middleware_of (PostComplaint b) = RequireAuth"
| "middleware_of GetMyComplaints = RequireAuth"
| "middleware_of GetMyStats = RequireAuth"
| "middleware_of (GetComplaints filters) = RequireAdmin"
| "middleware_of GetStats = RequireAdmin"
| "middleware_of (GetComplaint ident) = RequireAdmin"
| "middleware_of (PatchComplaint ident b) = RequireAdmin"
| "middleware_of (GetUsers filters) = RequireAdmin"
| "middleware_of (PostUser b) = RequireAdmin"
| "middleware_of (DeleteUserById ident) = RequireAdmin"

definition run_middleware :: "middleware \<Rightarrow> user option \<Rightarrow> (nat \<times> json) option" where
  "run_middleware m usr =
     (case m of
        NoMiddleware \<Rightarrow> None
      | RequireAuth \<Rightarrow> requireAuth usr
      | RequireAdmin \<Rightarrow> requireAdmin usr)"

definition handler :: "lib \<Rightarrow> env \<Rightarrow> db \<Rightarrow> user option \<Rightarrow> request \<Rightarrow> reply" where
  "handler l e d usr req =
     (case req of
        Register b \<Rightarrow> register_handler l e d b
      | Login uname pw \<Rightarrow> login_handler l d uname pw
      | Logout \<Rightarrow> logout_handler d
      | WhoAmI \<Rightarrow> whoami_handler d usr
      | PostComplaint b \<Rightarrow> post_complaint_handler e d usr b
      | GetMyComplaints \<Rightarrow> my_complaints_handler d usr
      | GetMyStats \<Rightarrow> my_stats_handler d usr
      | GetComplaints filters \<Rightarrow> complaints_handler d filters
      | GetStats \<Rightarrow> stats_handler d
      | GetComplaint ident \<Rightarrow> complaint_handler d ident
      | PatchComplaint ident b \<Rightarrow> patch_complaint_handler e d ident b
      | GetUsers filters \<Rightarrow> users_handler d filters
      | PostUser b \<Rightarrow> post_user_handler l e d b
      | DeleteUserById ident \<Rightarrow> delete_user_handler d ident)"

text \<open>A route: its middleware, then its handler.\<close>

definition route :: "lib \<Rightarrow> env \<Rightarrow> db \<Rightarrow> user option \<Rightarrow> request \<Rightarrow> reply" where
  "route l e d usr req =
     guarded (run_middleware (middleware_of req) usr) d (handler l e d usr req)"

text \<open>The application: the session middleware runs before every route. An error of
  \<open>deserializeUser\<close> ends the request with status 500; a session whose user no longer
  exists is dropped.\<close>

record outcome =
  o_status :: nat
  o_body :: json
  o_db :: db
  o_calls :: "store_call list"
  o_session :: "string option"

definition finish :: "string option \<Rightarrow> user option \<Rightarrow> store_call list \<Rightarrow> reply \<Rightarrow> outcome" where
  "finish sess usr pre r =
     \<lparr> o_status = r_status r,
       o_body = r_body r,
       o_db = r_db r,
       o_calls = pre @ r_calls r,
       o_session = (case r_session r of
                      LogIn ident \<Rightarrow> Some ident
                    | LogOut \<Rightarrow> None
                    | Keep \<Rightarrow> (case usr of None \<Rightarrow> None | Some u \<Rightarrow> sess)) \<rparr>"

definition handle :: "lib \<Rightarrow> env \<Rightarrow> db \<Rightarrow> string option \<Rightarrow> request \<Rightarrow> outcome" where
  "handle l e d sess req =
     (case deserializeUser d sess of
        (Inl err, pre) \<Rightarrow>
          \<lparr> o_status = 500, o_body = message ''Internal Server Error'', o_db = d,
            o_calls = pre, o_session = sess \<rparr>
      | (Inr usr, pre) \<Rightarrow> finish sess usr pre (route l e d usr req))"

section \<open>The listing as the specification words it\<close>

text \<open>The specification describes the text filter of the admin listing as a
  case-insensitive substring match against subject, description or the owner's display
  name. \<open>has_substring text needle\<close> is the substring relation; \<open>spec_search_match\<close> is
  that reading of the filter, to be compared with \<open>search_condition\<close> above.\<close>

fun has_substring :: "string \<Rightarrow> string \<Rightarrow> bool" where
  "has_substring [] needle = (needle = [])"
| "has_substring (c # cs) needle =
     (take (length needle) (c # cs) = needle \<or> has_substring cs needle)"

definition spec_search_match :: "string \<Rightarrow> complaint_with_student \<Rightarrow> bool" where
  "spec_search_match needle r =
     (has_substring (lower (c_subject (fst r))) (lower needle)
    \<or> has_substring (lower (c_description (fst r))) (lower needle)
    \<or> (case snd r of None \<Rightarrow> False | Some st \<Rightarrow> has_substring (lower (s_name st)) (lower needle)))"

text \<open>A search text free of the three characters that LIKE treats specially.\<close>

definition plain :: "string \<Rightarrow> bool" where
  "plain s = (\<forall>c \<in> set s. c \<noteq> CHR ''%'' \<and> c \<noteq> CHR ''_'' \<and> c \<noteq> CHR 0x5C)"

section \<open>The owner reference\<close>

text \<open>Every complaint's \<open>student_id\<close> is the id of a row of \<open>users\<close>.\<close>

definition owners_exist :: "db \<Rightarrow> bool" where
  "owners_exist d = (\<forall>c \<in> set (complaints d). c_studentId c \<in> set (map u_id (users d)))"

text \<open>From \<open>d\<close> to \<open>d'\<close> no complaint of \<open>d\<close> has gone or changed its owner: the complaints
  of \<open>d\<close> are still the first rows of \<open>d'\<close>, with the same owner ids.\<close>

definition owners_kept :: "db \<Rightarrow> db \<Rightarrow> bool" where
  "owners_kept d d' =
     (take (length (complaints d)) (map c_studentId (complaints d'))
        = map c_studentId (complaints d))"

section \<open>A small population for the worked examples\<close>

text \<open>A stand-in for scrypt (with keys of eight bytes), for the e-mail pattern and for
  the index limit, so that the examples compute. The three stored passwords are
  \<open>hashPassword\<close> of \<open>hunter2\<close>, \<open>secret\<close> and \<open>admin1\<close> under that stand-in.\<close>

definition demo_lib :: lib where
  "demo_lib =
     \<lparr> scrypt = (\<lambda>pw slt. take 8 (rev pw @ slt @ ''########'')),
       isEmail = (\<lambda>s. CHR ''@'' \<in> set s),
       index_fits = (\<lambda>s. length s \<le> 2000) \<rparr>"

definition demo_env :: env where
  "demo_env = \<lparr> app_now = 1000, db_now = 1001, uuid = ''id-9'', salt_bytes = ''salt'' \<rparr>"

definition later_env :: env where
  "later_env = \<lparr> app_now = 2000, db_now = 2001, uuid = ''id-10'', salt_bytes = ''pepper'' \<rparr>"

definition asha :: user where
  "asha = \<lparr> u_id = ''u1'', u_username = ''asha'', u_password = ''327265746e756836.6162'',
            u_name = ''Asha'', u_role = Student, u_roomNumber = Some ''B-12'',
            u_collegeEmail = Some ''asha@college.edu'', u_createdAt = 10 \<rparr>"

definition ravi :: user where
  "ravi = \<lparr> u_id = ''u2'', u_username = ''ravi'', u_password = ''7465726365733633.6364'',
            u_name = ''Ravi'', u_role = Student, u_roomNumber = Some ''C-3'',
            u_collegeEmail = Some ''ravi@college.edu'', u_createdAt = 20 \<rparr>"

definition warden :: user where
  "warden = \<lparr> u_id = ''a1'', u_username = ''warden'', u_password = ''316e696d64613635.6566'',
              u_name = ''Warden'', u_role = Admin, u_roomNumber = None,
              u_collegeEmail = Some ''warden@college.edu'', u_createdAt = 5 \<rparr>"

definition leak :: complaint where
  "leak = \<lparr> c_id = ''c1'', c_studentId = ''u1'', c_subject = ''Leak'',
            c_description = ''Tap drips'', c_category = Maintenance, c_roomNumber = ''B-12'',
            c_status = Pending, c_adminResponse = None, c_createdAt = 100,
            c_updatedAt = 1000 \<rparr>"

definition demo_db :: db where
  "demo_db = \<lparr> users = [asha, ravi, warden], complaints = [leak] \<rparr>"

definition mallory_body :: json where
  "mallory_body =
     JObj [(''username'', JStr ''mallory''), (''password'', JStr ''pw''),
           (''name'', JStr ''Mallory''), (''role'', JStr ''admin''),
           (''collegeEmail'', JStr ''mallory@college.edu'')]"

definition gmail_body :: json where
  "gmail_body =
     JObj [(''username'', JStr ''mallory''), (''password'', JStr ''pw''),
           (''name'', JStr ''Mallory''), (''role'', JStr ''admin''),
           (''collegeEmail'', JStr ''mallory@gmail.com'')]"

definition faucet_body :: json where
  "faucet_body =
     JObj [(''category'', JStr ''other''), (''subject'', JStr ''Leaky faucet''),
           (''description'', JStr ''Bathroom faucet in room B-12 will not stop dripping''),
           (''roomNumber'', JStr ''B-12'')]"

definition blank_body :: json where
  "blank_body =
     JObj [(''category'', JStr ''other''), (''subject'', JStr []),
           (''description'', JStr []), (''roomNumber'', JStr [])]"

definition plumbing_body :: json where
  "plumbing_body =
     JObj [(''category'', JStr ''plumbing''), (''subject'', JStr ''Leaky faucet''),
           (''description'', JStr ''It drips''), (''roomNumber'', JStr ''B-12'')]"

definition fixed_update :: update_complaint where
  "fixed_update = \<lparr> uc_status = Some Resolved, uc_adminResponse = Some (Some ''Fixed'') \<rparr>"

definition fixed_body :: json where
  "fixed_body = JObj [(''status'', JStr ''resolved''), (''adminResponse'', JStr ''Fixed'')]"

section \<open>Properties\<close>

subsection \<open>Lookups and the session\<close>

lemma find_None_iff_notin: "find (\<lambda>x. f x = k) xs = None \<longleftrightarrow> k \<notin> set (map f xs)"
  by (induction xs) auto

lemma find_Some_key: "find (\<lambda>x. f x = k) xs = Some x \<Longrightarrow> f x = k \<and> x \<in> set xs"
  by (induction xs) (auto split: if_splits)

lemma find_append_fresh:
  "k \<notin> set (map f xs) \<Longrightarrow> f y = k \<Longrightarrow> find (\<lambda>x. f x = k) (xs @ [y]) = Some y"
  by (induction xs) auto

lemma getUser_Some: "getUser d ident = Inr (Some u) \<Longrightarrow> u_id u = ident \<and> u \<in> set (users d)"
  using find_Some_key [of u_id ident "users d" u]
  by (auto simp: getUser_def split: option.splits if_splits)

lemma getUserByUsername_Some:
  "getUserByUsername d uname = Inr (Some u) \<Longrightarrow> u_username u = uname \<and> u \<in> set (users d)"
  using find_Some_key [of u_username uname "users d" u]
  by (auto simp: getUserByUsername_def split: option.splits if_splits)

lemma getUserByUsername_fresh:
  "uname \<notin> set (map u_username (users d)) \<Longrightarrow> \<not> has_nul uname \<Longrightarrow>
     getUserByUsername d uname = Inr None"
  using find_None_iff_notin [of u_username uname "users d"]
  by (simp add: getUserByUsername_def)

lemma finish_simps:
  "o_status (finish sess usr pre r) = r_status r"
  "o_body (finish sess usr pre r) = r_body r"
  "o_db (finish sess usr pre r) = r_db r"
  "o_calls (finish sess usr pre r) = pre @ r_calls r"
  by (simp_all add: finish_def)

lemma handle_no_user:
  "fst (deserializeUser d sess) = Inr None \<Longrightarrow>
     handle l e d sess req = finish sess None (snd (deserializeUser d sess)) (route l e d None req)"
  by (cases "deserializeUser d sess") (simp add: handle_def)

lemma handle_session_user:
  "getUser d ident = Inr (Some u) \<Longrightarrow>
     handle l e d (Some ident) req =
       finish (Some ident) (Some u) [CallGetUser ident] (route l e d (Some u) req)"
  by (simp add: handle_def deserializeUser_def)

lemma handle_answered:
  assumes "o_status (handle l e d sess req) \<noteq> 500"
  shows "\<exists>usr pre. handle l e d sess req = finish sess usr pre (route l e d usr req)"
proof (cases "deserializeUser d sess")
  case (Pair res pre)
  then show ?thesis using assms by (cases res) (auto simp: handle_def)
qed

lemma handle_db_cases:
  "o_db (handle l e d sess req) = d \<or> (\<exists>usr. o_db (handle l e d sess req) = r_db (route l e d usr req))"
proof (cases "deserializeUser d sess")
  case (Pair res pre)
  then show ?thesis by (cases res) (auto simp: handle_def finish_simps)
qed

lemma route_no_user_auth:
  "middleware_of req = RequireAuth \<Longrightarrow>
     route l e d None req = respond 401 (message ''Not authenticated'') d []"
  by (simp add: route_def run_middleware_def requireAuth_def guarded_def)

lemma route_no_user_admin:
  "middleware_of req = RequireAdmin \<Longrightarrow>
     route l e d None req = respond 403 (message ''Admin access required'') d []"
  by (simp add: route_def run_middleware_def requireAdmin_def guarded_def)

lemma admin_route_passed:
  assumes "r_status (route l e d usr req) = st" and "st \<noteq> 403"
      and "middleware_of req = RequireAdmin"
  shows "route l e d usr req = handler l e d usr req"
  using assms
  by (auto simp: route_def run_middleware_def requireAdmin_def guarded_def respond_def
      split: option.splits if_splits)

lemma route_student_post:
  "u_role u = Student \<Longrightarrow>
   route l e d (Some u) (PostComplaint b) =
     (case insertComplaintSchema_parse b of
        Inl issues \<Rightarrow> respond 400 (invalid_input issues) d []
      | Inr v \<Rightarrow>
          (case createComplaint e d v (u_id u) of
             Inl err \<Rightarrow> next_error d [CallCreateComplaint v (u_id u)]
           | Inr (c, d') \<Rightarrow>
               respond 201 (json_of_complaint c) d' [CallCreateComplaint v (u_id u)]))"
  by (simp add: route_def run_middleware_def requireAuth_def guarded_def handler_def
        post_complaint_handler_def not_student_def Let_def split: sum.splits)

subsection \<open>Account payloads\<close>

lemma password_property: "property (json_of_user u) ''password'' = Some (JStr (u_password u))"
  by (simp add: json_of_user_def property_def)

lemma create_account_201:
  assumes "r_status (create_account l e d b login) = 201"
  shows "\<exists>u pw. u \<in> set (users (r_db (create_account l e d b login)))
           \<and> r_body (create_account l e d b login) = json_of_user u
           \<and> z_string (property b ''password'') = Some pw
           \<and> u_password u = hashPassword l e pw"
proof -
  from assms obtain v where v: "insertUserSchema_parse l b = Inr v"
    by (auto simp: create_account_def respond_def split: sum.splits)
  then have pw: "z_string (property b ''password'') = Some (iu_password v)"
    by (auto simp: insertUserSchema_parse_def split: if_splits option.splits)
  from assms v have free: "getUserByUsername d (iu_username v) = Inr None"
    by (auto simp: create_account_def respond_def next_error_def split: sum.splits option.splits)
  let ?iu = "v\<lparr>iu_password := hashPassword l e (iu_password v)\<rparr>"
  from assms v free obtain u d' where c: "createUser l e d ?iu = Inr (u, d')"
    by (auto simp: create_account_def respond_def next_error_def Let_def split: sum.splits)
  then have "u \<in> set (users d')" "u_password u = hashPassword l e (iu_password v)"
    by (auto simp: createUser_def Let_def split: if_splits)
  moreover have "r_db (create_account l e d b login) = d'"
    "r_body (create_account l e d b login) = json_of_user u"
    using v free c by (simp_all add: create_account_def respond_def Let_def)
  ultimately show ?thesis using pw by auto
qed

lemma login_200:
  assumes "r_status (login_handler l d uname pw) = 200"
  shows "\<exists>u. u \<in> set (users d) \<and> r_body (login_handler l d uname pw) = json_of_user u"
proof -
  from assms obtain u
    where "getUserByUsername d (case uname of Some s \<Rightarrow> s | None \<Rightarrow> []) = Inr (Some u)"
      and "r_body (login_handler l d uname pw) = json_of_user u"
    by (auto simp: login_handler_def respond_def next_error_def Let_def
        split: if_splits option.splits bool.splits sum.splits)
  then show ?thesis
    using getUserByUsername_Some by blast
qed

lemma users_200:
  assumes "r_status (users_handler d f) = 200"
  shows "\<exists>us. set us \<subseteq> set (users d) \<and> r_body (users_handler d f) = JArr (map json_of_user us)"
proof -
  from assms obtain us where us: "getAllUsers d f = Inr us"
    by (auto simp: users_handler_def respond_def next_error_def split: sum.splits)
  then have "set us \<subseteq> set (users d)"
    by (auto simp: getAllUsers_def newest_first_def split: sum.splits if_splits)
  then show ?thesis using us by (auto simp: users_handler_def respond_def)
qed

text \<open>
  C1, as the code has it. Every successful account-creating or account-returning operation
  answers with the whole stored row, serialised by \<open>res.json\<close>: registration and
  \<open>POST /api/users\<close> (status 201) return the row just inserted, whose \<open>password\<close> column is
  \<open>hashPassword\<close> of the submitted password; login (status 200) returns the row found in
  the store; the account listing (status 200) returns rows of the store. In each payload
  the property \<open>password\<close> is the stored credential hash.
\<close>

theorem account_payload_carries_hash:
  "(o_status (handle l e d sess (Register b)) = 201 \<longrightarrow>
      (\<exists>u pw. u \<in> set (users (o_db (handle l e d sess (Register b))))
            \<and> o_body (handle l e d sess (Register b)) = json_of_user u
            \<and> z_string (property b ''password'') = Some pw
            \<and> u_password u = hashPassword l e pw))
 \<and> (o_status (handle l e d sess (PostUser b)) = 201 \<longrightarrow>
      (\<exists>u pw. u \<in> set (users (o_db (handle l e d sess (PostUser b))))
            \<and> o_body (handle l e d sess (PostUser b)) = json_of_user u
            \<and> z_string (property b ''password'') = Some pw
            \<and> u_password u = hashPassword l e pw))
 \<and> (o_status (handle l e d sess (Login uname pw')) = 200 \<longrightarrow>
      (\<exists>u. u \<in> set (users d)
          \<and> o_body (handle l e d sess (Login uname pw')) = json_of_user u))
 \<and> (o_status (handle l e d sess (GetUsers f)) = 200 \<longrightarrow>
      (\<exists>us. set us \<subseteq> set (users d)
           \<and> o_body (handle l e d sess (GetUsers f)) = JArr (map json_of_user us)))
 \<and> property (json_of_user usr) ''password'' = Some (JStr (u_password usr))"
proof -
  have reg: "route l e d u' (Register b) = create_account l e d b True" for u'
    by (simp add: route_def run_middleware_def guarded_def handler_def register_handler_def)
  have login: "route l e d u' (Login uname pw') = login_handler l d uname pw'" for u'
    by (simp add: route_def run_middleware_def guarded_def handler_def)
  have post: "route l e d u' (PostUser b) = create_account l e d b False"
    if "r_status (route l e d u' (PostUser b)) = 201" for u'
    using admin_route_passed [of l e d u' "PostUser b" 201] that
    by (simp add: handler_def post_user_handler_def)
  have list: "route l e d u' (GetUsers f) = users_handler d f"
    if "r_status (route l e d u' (GetUsers f)) = 200" for u'
    using admin_route_passed [of l e d u' "GetUsers f" 200] that
    by (simp add: handler_def)
  have c1: "\<exists>u pw. u \<in> set (users (o_db (handle l e d sess (Register b))))
            \<and> o_body (handle l e d sess (Register b)) = json_of_user u
            \<and> z_string (property b ''password'') = Some pw
            \<and> u_password u = hashPassword l e pw"
    if st: "o_status (handle l e d sess (Register b)) = 201"
  proof -
    from st obtain u' pre
      where h: "handle l e d sess (Register b) = finish sess u' pre (route l e d u' (Register b))"
      using handle_answered [of l e d sess "Register b"] by auto
    with st have "r_status (create_account l e d b True) = 201"
      by (simp add: finish_simps reg)
    from create_account_201 [OF this] show ?thesis
      by (simp add: h finish_simps reg)
  qed
  have c2: "\<exists>u pw. u \<in> set (users (o_db (handle l e d sess (PostUser b))))
            \<and> o_body (handle l e d sess (PostUser b)) = json_of_user u
            \<and> z_string (property b ''password'') = Some pw
            \<and> u_password u = hashPassword l e pw"
    if st: "o_status (handle l e d sess (PostUser b)) = 201"
  proof -
    from st obtain u' pre
      where h: "handle l e d sess (PostUser b) = finish sess u' pre (route l e d u' (PostUser b))"
      using handle_answered [of l e d sess "PostUser b"] by auto
    with st have r: "r_status (route l e d u' (PostUser b)) = 201"
      by (simp add: finish_simps)
    then have "r_status (create_account l e d b False) = 201"
      using post [OF r] by simp
    from create_account_201 [OF this] show ?thesis
      by (simp add: h finish_simps post [OF r])
  qed
  have c3: "\<exists>u. u \<in> set (users d)
          \<and> o_body (handle l e d sess (Login uname pw')) = json_of_user u"
    if st: "o_status (handle l e d sess (Login uname pw')) = 200"
  proof -
    from st obtain u' pre
      where h: "handle l e d sess (Login uname pw')
                  = finish sess u' pre (route l e d u' (Login uname pw'))"
      using handle_answered [of l e d sess "Login uname pw'"] by auto
    with st have "r_status (login_handler l d uname pw') = 200"
      by (simp add: finish_simps login)
    from login_200 [OF this] show ?thesis
      by (simp add: h finish_simps login)
  qed
  have c4: "\<exists>us. set us \<subseteq> set (users d)
           \<and> o_body (handle l e d sess (GetUsers f)) = JArr (map json_of_user us)"
    if st: "o_status (handle l e d sess (GetUsers f)) = 200"
  proof -
    from st obtain u' pre
      where h: "handle l e d sess (GetUsers f) = finish sess u' pre (route l e d u' (GetUsers f))"
      using handle_answered [of l e d sess "GetUsers f"] by auto
    with st have r: "r_status (route l e d u' (GetUsers f)) = 200"
      by (simp add: finish_simps)
    then have "r_status (users_handler d f) = 200"
      using list [OF r] by simp
    from users_200 [OF this] show ?thesis
      by (simp add: h finish_simps list [OF r])
  qed
  show ?thesis using c1 c2 c3 c4 password_property by blast
qed

text \<open>The theorem at work: Asha logs in, an admin lists the accounts, an anonymous
  caller registers, and an admin creates an account.\<close>

theorem login_payload_carries_hash:
  "o_status (handle demo_lib demo_env demo_db None (Login (Some ''asha'') (Some ''hunter2''))) = 200
 \<and> (\<exists>u. u \<in> set (users demo_db)
        \<and> o_body (handle demo_lib demo_env demo_db None (Login (Some ''asha'') (Some ''hunter2'')))
            = json_of_user u)
 \<and> o_status (handle demo_lib demo_env demo_db (Some ''a1'')
       (GetUsers \<lparr>uf_role = Some ''student'', uf_search = None\<rparr>)) = 200
 \<and> (\<exists>us. set us \<subseteq> set (users demo_db)
        \<and> o_body (handle demo_lib demo_env demo_db (Some ''a1'')
             (GetUsers \<lparr>uf_role = Some ''student'', uf_search = None\<rparr>)) = JArr (map json_of_user us))
 \<and> o_status (handle demo_lib demo_env demo_db None (Register mallory_body)) = 201
 \<and> (\<exists>u pw. u \<in> set (users (o_db (handle demo_lib demo_env demo_db None (Register mallory_body))))
        \<and> o_body (handle demo_lib demo_env demo_db None (Register mallory_body)) = json_of_user u
        \<and> u_password u = hashPassword demo_lib demo_env pw)
 \<and> o_status (handle demo_lib demo_env demo_db (Some ''a1'') (PostUser mallory_body)) = 201
 \<and> (\<exists>u pw. u \<in> set (users (o_db (handle demo_lib demo_env demo_db (Some ''a1'')
                                       (PostUser mallory_body))))
        \<and> o_body (handle demo_lib demo_env demo_db (Some ''a1'') (PostUser mallory_body))
            = json_of_user u
        \<and> u_password u = hashPassword demo_lib demo_env pw)"
proof -
  have h3: "o_status (handle demo_lib demo_env demo_db None (Register mallory_body)) = 201"
    by code_simp
  have h4: "o_status (handle demo_lib demo_env demo_db (Some ''a1'') (PostUser mallory_body)) = 201"
    by code_simp
  have h1: "o_status (handle demo_lib demo_env demo_db None
              (Login (Some ''asha'') (Some ''hunter2''))) = 200"
    by code_simp
  have h2: "o_status (handle demo_lib demo_env demo_db (Some ''a1'')
              (GetUsers \<lparr>uf_role = Some ''student'', uf_search = None\<rparr>)) = 200"
    by code_simp
  have a: "\<exists>u. u \<in> set (users demo_db)
        \<and> o_body (handle demo_lib demo_env demo_db None (Login (Some ''asha'') (Some ''hunter2'')))
            = json_of_user u"
    using h1
      account_payload_carries_hash [of demo_lib demo_env demo_db None _ "Some ''asha''"
        "Some ''hunter2''"]
    by blast
  have b: "\<exists>us. set us \<subseteq> set (users demo_db)
        \<and> o_body (handle demo_lib demo_env demo_db (Some ''a1'')
             (GetUsers \<lparr>uf_role = Some ''student'', uf_search = None\<rparr>)) = JArr (map json_of_user us)"
    using h2
      account_payload_carries_hash [of demo_lib demo_env demo_db "Some ''a1''" _ _ _
        "\<lparr>uf_role = Some ''student'', uf_search = None\<rparr>"]
    by blast
  have c: "\<exists>u pw. u \<in> set (users (o_db (handle demo_lib demo_env demo_db None
                                         (Register mallory_body))))
        \<and> o_body (handle demo_lib demo_env demo_db None (Register mallory_body)) = json_of_user u
        \<and> u_password u = hashPassword demo_lib demo_env pw"
    using h3 account_payload_carries_hash [of demo_lib demo_env demo_db None mallory_body]
    by blast
  have d: "\<exists>u pw. u \<in> set (users (o_db (handle demo_lib demo_env demo_db (Some ''a1'')
                                         (PostUser mallory_body))))
        \<and> o_body (handle demo_lib demo_env demo_db (Some ''a1'') (PostUser mallory_body))
            = json_of_user u
        \<and> u_password u = hashPassword demo_lib demo_env pw"
    using h4 account_payload_carries_hash [of demo_lib demo_env demo_db "Some ''a1''" mallory_body]
    by blast
  show ?thesis
    using h1 h2 h3 h4 a b c d by (intro conjI)
qed

text \<open>
  C1 as stated fails: a registration answers 201 with a payload whose \<open>password\<close> property
  is the credential hash that was just stored.
\<close>

theorem register_payload_has_hash:
  "o_status (handle demo_lib demo_env demo_db None (Register mallory_body)) = 201
 \<and> property (o_body (handle demo_lib demo_env demo_db None (Register mallory_body))) ''password''
     = Some (JStr ''7770373336313663.73616c74'')
 \<and> hashPassword demo_lib demo_env ''pw'' = ''7770373336313663.73616c74''
 \<and> u_password (last (users (o_db (handle demo_lib demo_env demo_db None (Register mallory_body)))))
     = ''7770373336313663.73616c74''"
  by code_simp

subsection \<open>Callers without a verified session\<close>

text \<open>
  C2, as the code has it. A caller has no verified session when the request carries no
  session or carries one whose user id no longer resolves to an account; \<open>req.user\<close> is
  then not set. For such a caller every operation other than login and registration leaves
  the store as it was and makes no store call besides the session middleware's own
  \<open>getUser\<close> lookup of a stale session id (none at all without a session). The answer is
  401 (Unauthenticated) for the routes behind \<open>requireAuth\<close> (file a complaint, list my
  complaints, my statistics) and for whoami; it is 403 (Forbidden) for the routes behind
  \<open>requireAdmin\<close> (list all complaints, global statistics, get and update a complaint, list,
  create and delete accounts); logout answers 200.
\<close>

theorem anonymous_caller_rejected:
  assumes "fst (deserializeUser d sess) = Inr None"
  shows "(middleware_of req = RequireAuth \<longrightarrow> o_status (handle l e d sess req) = 401)
       \<and> (req = WhoAmI \<longrightarrow> o_status (handle l e d sess req) = 401)
       \<and> (middleware_of req = RequireAdmin \<longrightarrow> o_status (handle l e d sess req) = 403)
       \<and> (req = Logout \<longrightarrow> o_status (handle l e d sess req) = 200)
       \<and> ((\<forall>b. req \<noteq> Register b) \<and> (\<forall>uname pw. req \<noteq> Login uname pw) \<longrightarrow>
             o_calls (handle l e d sess req) = snd (deserializeUser d sess)
           \<and> o_db (handle l e d sess req) = d)
       \<and> snd (deserializeUser d sess)
           = (case sess of None \<Rightarrow> [] | Some ident \<Rightarrow> [CallGetUser ident])"
proof -
  note h = handle_no_user [OF assms]
  have auth: "o_status (handle l e d sess req) = 401
      \<and> o_calls (handle l e d sess req) = snd (deserializeUser d sess)
      \<and> o_db (handle l e d sess req) = d"
    if "middleware_of req = RequireAuth"
    using that by (simp add: h finish_simps route_no_user_auth respond_def)
  have admin: "o_status (handle l e d sess req) = 403
      \<and> o_calls (handle l e d sess req) = snd (deserializeUser d sess)
      \<and> o_db (handle l e d sess req) = d"
    if "middleware_of req = RequireAdmin"
    using that by (simp add: h finish_simps route_no_user_admin respond_def)
  have who: "o_status (handle l e d sess WhoAmI) = 401
      \<and> o_calls (handle l e d sess WhoAmI) = snd (deserializeUser d sess)
      \<and> o_db (handle l e d sess WhoAmI) = d"
    by (simp add: h finish_simps route_def run_middleware_def guarded_def handler_def
          whoami_handler_def respond_def)
  have out: "o_status (handle l e d sess Logout) = 200
      \<and> o_calls (handle l e d sess Logout) = snd (deserializeUser d sess)
      \<and> o_db (handle l e d sess Logout) = d"
    by (simp add: h finish_simps route_def run_middleware_def guarded_def handler_def
          logout_handler_def respond_def)
  have pre: "snd (deserializeUser d sess)
           = (case sess of None \<Rightarrow> [] | Some ident \<Rightarrow> [CallGetUser ident])"
    by (simp add: deserializeUser_def split: option.splits)
  show ?thesis
    using auth admin who out pre by (cases req) auto
qed

text \<open>The theorem at work, without a session and with the session of an account that has
  been deleted (\<open>ghost\<close>), on a route of each kind.\<close>

theorem anonymous_caller_rejected_demo:
  "fst (deserializeUser demo_db None) = Inr None
 \<and> fst (deserializeUser demo_db (Some ''ghost'')) = Inr None
 \<and> middleware_of GetMyStats = RequireAuth
 \<and> o_status (handle demo_lib demo_env demo_db None GetMyStats) = 401
 \<and> o_status (handle demo_lib demo_env demo_db (Some ''ghost'') WhoAmI) = 401
 \<and> middleware_of (DeleteUserById ''u1'') = RequireAdmin
 \<and> o_status (handle demo_lib demo_env demo_db None (DeleteUserById ''u1'')) = 403
 \<and> o_status (handle demo_lib demo_env demo_db (Some ''ghost'') (DeleteUserById ''u1'')) = 403
 \<and> o_status (handle demo_lib demo_env demo_db None Logout) = 200
 \<and> o_calls (handle demo_lib demo_env demo_db None (DeleteUserById ''u1'')) = []
 \<and> o_calls (handle demo_lib demo_env demo_db (Some ''ghost'') (DeleteUserById ''u1''))
     = [CallGetUser ''ghost'']
 \<and> o_db (handle demo_lib demo_env demo_db (Some ''ghost'') (DeleteUserById ''u1'')) = demo_db"
proof -
  have h1: "fst (deserializeUser demo_db None) = Inr None" by code_simp
  have h2: "fst (deserializeUser demo_db (Some ''ghost'')) = Inr None" by code_simp
  show ?thesis
    using h1 h2
      anonymous_caller_rejected [OF h1, of GetMyStats demo_lib demo_env]
      anonymous_caller_rejected [OF h2, of WhoAmI demo_lib demo_env]
      anonymous_caller_rejected [OF h1, of "DeleteUserById ''u1''" demo_lib demo_env]
      anonymous_caller_rejected [OF h2, of "DeleteUserById ''u1''" demo_lib demo_env]
      anonymous_caller_rejected [OF h1, of Logout demo_lib demo_env]
    by simp
qed

text \<open>
  C2 as stated fails: an anonymous request for the global statistics is answered 403
  (Forbidden, "Admin access required"), not 401.
\<close>

theorem anonymous_admin_route_forbidden:
  "o_status (handle demo_lib demo_env demo_db None GetStats) = 403
 \<and> o_status (handle demo_lib demo_env demo_db None GetStats) \<noteq> 401
 \<and> o_body (handle demo_lib demo_env demo_db None GetStats) = message ''Admin access required''"
  by code_simp

subsection \<open>Registration\<close>

lemma char_of_nul: "(char_of (m :: nat) :: char) = CHR 0x00 \<Longrightarrow> m mod 256 = 0"
proof -
  assume "(char_of m :: char) = CHR 0x00"
  then have "(of_char (char_of m :: char) :: nat) = of_char (CHR 0x00)" by simp
  then show ?thesis by simp
qed

lemma hex_digit_not_nul: "n < 16 \<Longrightarrow> hex_digit n \<noteq> CHR 0x00"
proof
  assume n: "n < 16" and z: "hex_digit n = CHR 0x00"
  show False
  proof (cases "n < 10")
    case True
    with z have "(char_of (48 + n) :: char) = CHR 0x00" by (simp add: hex_digit_def)
    from char_of_nul [OF this] True show False by simp
  next
    case False
    with z have "(char_of (87 + n) :: char) = CHR 0x00" by (simp add: hex_digit_def)
    from char_of_nul [OF this] n show False by simp
  qed
qed

lemma byte_high_digit: "(of_char b :: nat) div 16 < 16"
proof -
  have "(of_char b :: nat) mod 256 < 256" by simp
  then have "(of_char b :: nat) < 256" by (simp only: of_char_mod_256)
  then show ?thesis by (simp add: div_less_iff_less_mult)
qed

lemma to_hex_no_nul: "\<not> has_nul (to_hex bs)"
proof -
  have hi: "CHR 0x00 \<noteq> hex_digit ((of_char b :: nat) div 16)" for b
    using hex_digit_not_nul [OF byte_high_digit [of b]] by simp
  have lo: "CHR 0x00 \<noteq> hex_digit ((of_char b :: nat) mod 16)" for b
    using hex_digit_not_nul [of "(of_char b :: nat) mod 16"] by simp
  show ?thesis
    using hi lo by (auto simp: has_nul_def to_hex_def)
qed

lemma hashPassword_no_nul: "\<not> has_nul (hashPassword l e pw)"
  using to_hex_no_nul [of "scrypt l pw (to_hex (salt_bytes e))"] to_hex_no_nul [of "salt_bytes e"]
  by (auto simp: hashPassword_def Let_def has_nul_def)

lemma create_account_success:
  assumes "insertUserSchema_parse l b = Inr v"
      and "iu_username v \<notin> set (map u_username (users d))"
      and "\<not> has_nul (iu_username v)" and "\<not> has_nul (iu_name v)"
      and "\<not> opt_has_nul (iu_roomNumber v)" and "\<not> has_nul (iu_collegeEmail v)"
      and "index_fits l (iu_username v)"
      and "uuid e \<notin> set (map u_id (users d))"
  shows "create_account l e d b login =
           (let row = \<lparr> u_id = uuid e, u_username = iu_username v,
                        u_password = hashPassword l e (iu_password v), u_name = iu_name v,
                        u_role = (case iu_role v of None \<Rightarrow> Student | Some r \<Rightarrow> r),
                        u_roomNumber = iu_roomNumber v,
                        u_collegeEmail = Some (iu_collegeEmail v), u_createdAt = db_now e \<rparr>
            in \<lparr> r_status = 201, r_body = json_of_user row,
                 r_db = d\<lparr>users := users d @ [row]\<rparr>,
                 r_calls = [CallGetUserByUsername (iu_username v),
                            CallCreateUser (v\<lparr>iu_password := hashPassword l e (iu_password v)\<rparr>)],
                 r_session = (if login then LogIn (uuid e) else Keep) \<rparr>)"
proof -
  have "getUserByUsername d (iu_username v) = Inr None"
    using assms(2,3) by (rule getUserByUsername_fresh)
  then show ?thesis
    using assms hashPassword_no_nul [of l e "iu_password v"]
    by (simp add: create_account_def createUser_def respond_def Let_def)
qed

lemma parse_role_admin:
  assumes "insertUserSchema_parse l b = Inr v"
      and "property b ''role'' = Some (JStr ''admin'')"
  shows "iu_role v = Some Admin"
  using assms
  by (auto simp: insertUserSchema_parse_def z_enum_optional_def z_enum_def role_of_label_def
      split: if_splits option.splits prod.splits)

text \<open>
  C3, as the code has it. Take a registration whose payload passes \<open>insertUserSchema\<close>
  (username, password and name are strings, the room number is a string, null or absent,
  the college e-mail is an e-mail address with one of the three endings), sets \<open>role\<close> to
  \<open>"admin"\<close>, and names a login identifier that is not yet in use, holds no character
  U+0000 and fits an entry of the unique index; let name, room number and e-mail hold no
  U+0000 either. Whatever user the session of the caller resolves to (none is needed), the
  request is answered 201, an account with role admin is stored for that identifier, and it
  is logged in: the session then carries the id of the new account, the next request
  deserialises it to the new row, and \<open>requireAdmin\<close> lets that row pass. The id drawn by
  \<open>gen_random_uuid()\<close> is taken to be new.
\<close>

theorem register_as_admin:
  assumes "insertUserSchema_parse l b = Inr v"
      and "property b ''role'' = Some (JStr ''admin'')"
      and "iu_username v \<notin> set (map u_username (users d))"
      and "\<not> has_nul (iu_username v)" and "\<not> has_nul (iu_name v)"
      and "\<not> opt_has_nul (iu_roomNumber v)" and "\<not> has_nul (iu_collegeEmail v)"
      and "index_fits l (iu_username v)"
      and "uuid e \<notin> set (map u_id (users d))"
      and "fst (deserializeUser d sess) = Inr caller"
  shows "o_status (handle l e d sess (Register b)) = 201
       \<and> (\<exists>u. users (o_db (handle l e d sess (Register b))) = users d @ [u]
              \<and> u_id u = uuid e \<and> u_username u = iu_username v \<and> u_role u = Admin
              \<and> o_body (handle l e d sess (Register b)) = json_of_user u
              \<and> o_session (handle l e d sess (Register b)) = Some (u_id u)
              \<and> deserializeUser (o_db (handle l e d sess (Register b)))
                   (o_session (handle l e d sess (Register b)))
                  = (Inr (Some u), [CallGetUser (u_id u)])
              \<and> requireAdmin (Some u) = None)"
proof -
  have role: "iu_role v = Some Admin" using assms(1,2) by (rule parse_role_admin)
  note ca = create_account_success [OF assms(1) assms(3-9), of True]
  have h: "handle l e d sess (Register b)
      = finish sess caller (snd (deserializeUser d sess)) (create_account l e d b True)"
    using assms(10)
    by (cases "deserializeUser d sess")
       (simp add: handle_def route_def run_middleware_def guarded_def handler_def
          register_handler_def)
  show ?thesis
    using assms(9) role
    by (simp add: h finish_def ca Let_def deserializeUser_def getUser_def
          find_append_fresh requireAdmin_def)
qed

text \<open>The theorem at work: an anonymous caller registers as admin.\<close>

theorem register_as_admin_demo:
  "insertUserSchema_parse demo_lib mallory_body
     = Inr \<lparr> iu_username = ''mallory'', iu_password = ''pw'', iu_name = ''Mallory'',
             iu_role = Some Admin, iu_roomNumber = None,
             iu_collegeEmail = ''mallory@college.edu'' \<rparr>
 \<and> property mallory_body ''role'' = Some (JStr ''admin'')
 \<and> ''mallory'' \<notin> set (map u_username (users demo_db))
 \<and> \<not> has_nul ''mallory'' \<and> \<not> has_nul ''Mallory'' \<and> \<not> opt_has_nul None
 \<and> \<not> has_nul ''mallory@college.edu''
 \<and> index_fits demo_lib ''mallory''
 \<and> uuid demo_env \<notin> set (map u_id (users demo_db))
 \<and> fst (deserializeUser demo_db None) = Inr None
 \<and> o_status (handle demo_lib demo_env demo_db None (Register mallory_body)) = 201
 \<and> (\<exists>u. users (o_db (handle demo_lib demo_env demo_db None (Register mallory_body)))
            = users demo_db @ [u]
        \<and> u_role u = Admin
        \<and> o_session (handle demo_lib demo_env demo_db None (Register mallory_body)) = Some (u_id u)
        \<and> requireAdmin (Some u) = None)"
proof -
  let ?v = "\<lparr> iu_username = ''mallory'', iu_password = ''pw'', iu_name = ''Mallory'',
              iu_role = Some Admin, iu_roomNumber = None,
              iu_collegeEmail = ''mallory@college.edu'' \<rparr>"
  have h1: "insertUserSchema_parse demo_lib mallory_body = Inr ?v" by code_simp
  have h2: "property mallory_body ''role'' = Some (JStr ''admin'')" by code_simp
  have h3: "iu_username ?v \<notin> set (map u_username (users demo_db))" by code_simp
  have h4: "\<not> has_nul (iu_username ?v)" by code_simp
  have h5: "\<not> has_nul (iu_name ?v)" by code_simp
  have h6: "\<not> opt_has_nul (iu_roomNumber ?v)" by code_simp
  have h7: "\<not> has_nul (iu_collegeEmail ?v)" by code_simp
  have h8: "index_fits demo_lib (iu_username ?v)" by code_simp
  have h9: "uuid demo_env \<notin> set (map u_id (users demo_db))" by code_simp
  have h10: "fst (deserializeUser demo_db None) = Inr None" by code_simp
  from register_as_admin [OF h1 h2 h3 h4 h5 h6 h7 h8 h9 h10]
  have "o_status (handle demo_lib demo_env demo_db None (Register mallory_body)) = 201
      \<and> (\<exists>u. users (o_db (handle demo_lib demo_env demo_db None (Register mallory_body)))
            = users demo_db @ [u]
        \<and> u_role u = Admin
        \<and> o_session (handle demo_lib demo_env demo_db None (Register mallory_body)) = Some (u_id u)
        \<and> requireAdmin (Some u) = None)"
    by blast
  with h1 h2 h3 h4 h5 h6 h7 h8 h9 h10 show ?thesis by simp
qed

text \<open>
  C3 as stated fails: a registration that sets \<open>role\<close> to \<open>"admin"\<close> under a login
  identifier not yet in use, but gives the e-mail address \<open>mallory@gmail.com\<close>, is answered
  400; no account is created and no session is established.
\<close>

theorem register_gmail_rejected:
  "property gmail_body ''role'' = Some (JStr ''admin'')
 \<and> ''mallory'' \<notin> set (map u_username (users demo_db))
 \<and> o_status (handle demo_lib demo_env demo_db None (Register gmail_body)) = 400
 \<and> o_db (handle demo_lib demo_env demo_db None (Register gmail_body)) = demo_db
 \<and> o_session (handle demo_lib demo_env demo_db None (Register gmail_body)) = None"
  by code_simp

subsection \<open>Filing a complaint\<close>

lemma parse_complaint_invalid:
  assumes "z_string (property b ''subject'') = None
         \<or> z_string (property b ''description'') = None
         \<or> z_enum category_of_label (property b ''category'') = None
         \<or> z_string (property b ''roomNumber'') = None"
  shows "\<exists>issues. insertComplaintSchema_parse b = Inl issues"
  using assms by (auto simp: insertComplaintSchema_parse_def split: option.splits)

text \<open>
  C4, as the code has it. When a student files a complaint in which one of subject,
  description and room number is missing or is not a string, or the category is missing or
  is not one of the six enumerated values, the answer is 400 (ValidationError), the store is
  unchanged and the only store call of the request is the session's \<open>getUser\<close>. A blank
  (empty) string is a string: the schema has no minimum length.
\<close>

theorem invalid_complaint_rejected:
  assumes "getUser d sid = Inr (Some u)" and "u_role u = Student"
      and "z_string (property b ''subject'') = None
         \<or> z_string (property b ''description'') = None
         \<or> z_enum category_of_label (property b ''category'') = None
         \<or> z_string (property b ''roomNumber'') = None"
  shows "o_status (handle l e d (Some sid) (PostComplaint b)) = 400
       \<and> o_db (handle l e d (Some sid) (PostComplaint b)) = d
       \<and> o_calls (handle l e d (Some sid) (PostComplaint b)) = [CallGetUser sid]"
proof -
  obtain issues where "insertComplaintSchema_parse b = Inl issues"
    using parse_complaint_invalid [OF assms(3)] by blast
  then show ?thesis
    by (simp add: handle_session_user [OF assms(1)] route_student_post [OF assms(2)]
          finish_simps respond_def)
qed

text \<open>The theorem at work: the category \<open>"plumbing"\<close> is not in the enumeration.\<close>

theorem invalid_complaint_rejected_demo:
  "getUser demo_db ''u1'' = Inr (Some asha) \<and> u_role asha = Student
 \<and> z_enum category_of_label (property plumbing_body ''category'') = None
 \<and> o_status (handle demo_lib demo_env demo_db (Some ''u1'') (PostComplaint plumbing_body)) = 400
 \<and> o_db (handle demo_lib demo_env demo_db (Some ''u1'') (PostComplaint plumbing_body)) = demo_db
 \<and> o_calls (handle demo_lib demo_env demo_db (Some ''u1'') (PostComplaint plumbing_body))
     = [CallGetUser ''u1'']"
proof -
  have h1: "getUser demo_db ''u1'' = Inr (Some asha)" by code_simp
  have h2: "u_role asha = Student" by code_simp
  have h3: "z_enum category_of_label (property plumbing_body ''category'') = None" by code_simp
  have h3': "z_string (property plumbing_body ''subject'') = None
         \<or> z_string (property plumbing_body ''description'') = None
         \<or> z_enum category_of_label (property plumbing_body ''category'') = None
         \<or> z_string (property plumbing_body ''roomNumber'') = None"
    using h3 by simp
  from invalid_complaint_rejected [OF h1 h2 h3', of demo_lib demo_env] h1 h2 h3
  show ?thesis by simp
qed

text \<open>
  C4 as stated fails: a complaint whose subject, description and room number are all blank
  is accepted with status 201 and a record is created.
\<close>

theorem blank_complaint_accepted:
  "o_status (handle demo_lib demo_env demo_db (Some ''u1'') (PostComplaint blank_body)) = 201
 \<and> length (complaints (o_db (handle demo_lib demo_env demo_db (Some ''u1'')
       (PostComplaint blank_body)))) = Suc (length (complaints demo_db))
 \<and> c_subject (last (complaints (o_db (handle demo_lib demo_env demo_db (Some ''u1'')
       (PostComplaint blank_body))))) = []
 \<and> c_description (last (complaints (o_db (handle demo_lib demo_env demo_db (Some ''u1'')
       (PostComplaint blank_body))))) = []
 \<and> c_roomNumber (last (complaints (o_db (handle demo_lib demo_env demo_db (Some ''u1'')
       (PostComplaint blank_body))))) = []"
  by code_simp

text \<open>
  C5, as the code has it. A valid complaint filed by a student, with no character U+0000
  in its subject, description and room number, is answered 201 and appends one record to
  the store: status \<open>pending\<close>, no admin response, owner id equal to the caller's id, the
  validated subject, description, category and room number. Its created timestamp is the
  database's clock reading (the column default \<open>now()\<close>) and its updated timestamp is the
  server's clock reading (\<open>new Date()\<close>); the two are equal exactly when the two clocks
  read the same. The id drawn by \<open>gen_random_uuid()\<close> is taken to be new.
\<close>

theorem file_complaint_record:
  assumes "getUser d sid = Inr (Some u)" and "u_role u = Student"
      and "insertComplaintSchema_parse b = Inr v"
      and "\<not> has_nul (ic_subject v)" and "\<not> has_nul (ic_description v)"
      and "\<not> has_nul (ic_roomNumber v)"
      and "uuid e \<notin> set (map c_id (complaints d))"
  shows "o_status (handle l e d (Some sid) (PostComplaint b)) = 201
       \<and> o_db (handle l e d (Some sid) (PostComplaint b)) =
           d\<lparr>complaints := complaints d @
               [\<lparr> c_id = uuid e, c_studentId = sid, c_subject = ic_subject v,
                  c_description = ic_description v, c_category = ic_category v,
                  c_roomNumber = ic_roomNumber v, c_status = Pending,
                  c_adminResponse = None, c_createdAt = db_now e,
                  c_updatedAt = app_now e \<rparr>]\<rparr>
       \<and> u_id u = sid
       \<and> (c_createdAt (last (complaints (o_db (handle l e d (Some sid) (PostComplaint b)))))
            = c_updatedAt (last (complaints (o_db (handle l e d (Some sid) (PostComplaint b)))))
          \<longleftrightarrow> db_now e = app_now e)"
proof -
  have u: "u_id u = sid" "u \<in> set (users d)" using getUser_Some [OF assms(1)] by simp_all
  then have "sid \<in> set (map u_id (users d))" by force
  then show ?thesis
    using assms(3-7) u
    by (simp add: handle_session_user [OF assms(1)] route_student_post [OF assms(2)]
          finish_simps createComplaint_def respond_def Let_def)
qed

text \<open>The theorem at work: the leaky faucet of the specification.\<close>

theorem file_complaint_record_demo:
  "getUser demo_db ''u1'' = Inr (Some asha) \<and> u_role asha = Student
 \<and> insertComplaintSchema_parse faucet_body
     = Inr \<lparr> ic_subject = ''Leaky faucet'',
             ic_description = ''Bathroom faucet in room B-12 will not stop dripping'',
             ic_category = Other, ic_roomNumber = ''B-12'' \<rparr>
 \<and> \<not> has_nul ''Leaky faucet''
 \<and> \<not> has_nul ''Bathroom faucet in room B-12 will not stop dripping''
 \<and> \<not> has_nul ''B-12''
 \<and> uuid demo_env \<notin> set (map c_id (complaints demo_db))
 \<and> o_status (handle demo_lib demo_env demo_db (Some ''u1'') (PostComplaint faucet_body)) = 201
 \<and> o_db (handle demo_lib demo_env demo_db (Some ''u1'') (PostComplaint faucet_body)) =
     demo_db\<lparr>complaints := complaints demo_db @
       [\<lparr> c_id = uuid demo_env, c_studentId = ''u1'', c_subject = ''Leaky faucet'',
          c_description = ''Bathroom faucet in room B-12 will not stop dripping'',
          c_category = Other, c_roomNumber = ''B-12'', c_status = Pending,
          c_adminResponse = None, c_createdAt = db_now demo_env,
          c_updatedAt = app_now demo_env \<rparr>]\<rparr>"
proof -
  let ?v = "\<lparr> ic_subject = ''Leaky faucet'',
              ic_description = ''Bathroom faucet in room B-12 will not stop dripping'',
              ic_category = Other, ic_roomNumber = ''B-12'' \<rparr>"
  have h1: "getUser demo_db ''u1'' = Inr (Some asha)" by code_simp
  have h2: "u_role asha = Student" by code_simp
  have h3: "insertComplaintSchema_parse faucet_body = Inr ?v" by code_simp
  have h4: "\<not> has_nul (ic_subject ?v)" by code_simp
  have h5: "\<not> has_nul (ic_description ?v)" by code_simp
  have h6: "\<not> has_nul (ic_roomNumber ?v)" by code_simp
  have h7: "uuid demo_env \<notin> set (map c_id (complaints demo_db))" by code_simp
  from file_complaint_record [OF h1 h2 h3 h4 h5 h6 h7, of demo_lib] h1 h2 h3 h4 h5 h6 h7
  show ?thesis by simp
qed

text \<open>
  C5 as stated fails: for the leaky faucet, filed while the database clock reads 1001 and
  the server clock reads 1000, the created and the updated timestamp of the record differ.
\<close>

theorem faucet_timestamps_differ:
  "o_status (handle demo_lib demo_env demo_db (Some ''u1'') (PostComplaint faucet_body)) = 201
 \<and> c_createdAt (last (complaints (o_db (handle demo_lib demo_env demo_db (Some ''u1'')
       (PostComplaint faucet_body))))) = 1001
 \<and> c_updatedAt (last (complaints (o_db (handle demo_lib demo_env demo_db (Some ''u1'')
       (PostComplaint faucet_body))))) = 1000"
  by code_simp

subsection \<open>Updating a complaint\<close>

lemma map_absent_id:
  "ident \<notin> set (map c_id cs) \<Longrightarrow> map (\<lambda>c. if c_id c = ident then g c else c) cs = cs"
  by (induction cs) auto

lemma apply_update_id: "c_id (apply_update e u c) = c_id c"
  by (simp add: apply_update_def)

lemma apply_update_owner: "c_studentId (apply_update e u c) = c_studentId c"
  by (simp add: apply_update_def)

lemma find_updated:
  "find (\<lambda>c. c_id c = ident)
     (map (\<lambda>c. if c_id c = ident then apply_update e u c else c) cs)
     = map_option (apply_update e u) (find (\<lambda>c. c_id c = ident) cs)"
  by (induction cs) (auto simp: apply_update_id)

text \<open>
  C6, as the code has it. Take \<open>updateComplaintStatus\<close> with a status and an admin
  response that holds no character U+0000. For an id that a complaint has, the accounts
  are left alone and the complaints are rewritten row by row: a row with the given id gets
  exactly the given status and the given admin response (in place of the old one) and the
  server's clock reading as updated timestamp, every other column staying as it was, and
  every row with another id is unchanged; the result is the rewritten row. For an id that
  no complaint has and that holds no U+0000 the result is nothing, the store is unchanged
  and the route answers 404 (NotFound). An admin response that holds U+0000, or an id that
  holds it and that no complaint has, is refused by the database: the call raises, the
  route answers 500 and the store is unchanged. The updated timestamp is strictly later
  than before exactly when the server's clock reading is later than the stored value.
\<close>

theorem update_status_frame:
  "(\<not> opt_has_nul r \<and> (ident \<in> set (map c_id (complaints d)) \<or> \<not> has_nul ident) \<longrightarrow>
      updateComplaintStatus e d ident \<lparr>uc_status = Some s, uc_adminResponse = Some r\<rparr>
        = Inr (map_option
                 (\<lambda>c. c\<lparr>c_status := s, c_adminResponse := r, c_updatedAt := app_now e\<rparr>)
                 (find (\<lambda>c. c_id c = ident) (complaints d)),
               d\<lparr>complaints :=
                   map (\<lambda>c. if c_id c = ident
                             then c\<lparr>c_status := s, c_adminResponse := r,
                                    c_updatedAt := app_now e\<rparr>
                             else c) (complaints d)\<rparr>))
 \<and> (\<not> opt_has_nul r \<and> ident \<notin> set (map c_id (complaints d)) \<and> \<not> has_nul ident \<longrightarrow>
      updateComplaintStatus e d ident \<lparr>uc_status = Some s, uc_adminResponse = Some r\<rparr>
        = Inr (None, d)
    \<and> (updateComplaintSchema_parse b = Inr \<lparr>uc_status = Some s, uc_adminResponse = Some r\<rparr>
         \<longrightarrow> r_status (patch_complaint_handler e d ident b) = 404
           \<and> r_db (patch_complaint_handler e d ident b) = d))
 \<and> (opt_has_nul r \<or> (ident \<notin> set (map c_id (complaints d)) \<and> has_nul ident) \<longrightarrow>
      updateComplaintStatus e d ident \<lparr>uc_status = Some s, uc_adminResponse = Some r\<rparr>
        = Inl InvalidText
    \<and> (updateComplaintSchema_parse b = Inr \<lparr>uc_status = Some s, uc_adminResponse = Some r\<rparr>
         \<longrightarrow> r_status (patch_complaint_handler e d ident b) = 500
           \<and> r_db (patch_complaint_handler e d ident b) = d))
 \<and> users (store_after d (updateComplaintStatus e d ident
       \<lparr>uc_status = Some s, uc_adminResponse = Some r\<rparr>)) = users d
 \<and> (\<forall>c \<in> set (complaints d).
       c_status (c\<lparr>c_status := s, c_adminResponse := r, c_updatedAt := app_now e\<rparr>) = s
     \<and> c_adminResponse (c\<lparr>c_status := s, c_adminResponse := r, c_updatedAt := app_now e\<rparr>) = r
     \<and> c_updatedAt (c\<lparr>c_status := s, c_adminResponse := r, c_updatedAt := app_now e\<rparr>)
         = app_now e
     \<and> c_createdAt (c\<lparr>c_status := s, c_adminResponse := r, c_updatedAt := app_now e\<rparr>)
         = c_createdAt c
     \<and> c_id (c\<lparr>c_status := s, c_adminResponse := r, c_updatedAt := app_now e\<rparr>) = c_id c
     \<and> c_studentId (c\<lparr>c_status := s, c_adminResponse := r, c_updatedAt := app_now e\<rparr>)
         = c_studentId c
     \<and> c_subject (c\<lparr>c_status := s, c_adminResponse := r, c_updatedAt := app_now e\<rparr>)
         = c_subject c
     \<and> c_description (c\<lparr>c_status := s, c_adminResponse := r, c_updatedAt := app_now e\<rparr>)
         = c_description c
     \<and> c_category (c\<lparr>c_status := s, c_adminResponse := r, c_updatedAt := app_now e\<rparr>)
         = c_category c
     \<and> c_roomNumber (c\<lparr>c_status := s, c_adminResponse := r, c_updatedAt := app_now e\<rparr>)
         = c_roomNumber c
     \<and> (c_updatedAt c
           < c_updatedAt (c\<lparr>c_status := s, c_adminResponse := r, c_updatedAt := app_now e\<rparr>)
         \<longleftrightarrow> c_updatedAt c < app_now e))"
proof -
  let ?u = "\<lparr>uc_status = Some s, uc_adminResponse = Some r\<rparr>"
  let ?set = "\<lambda>c. c\<lparr>c_status := s, c_adminResponse := r, c_updatedAt := app_now e\<rparr>"
  have upd: "apply_update e ?u = ?set"
    by (rule ext) (simp add: apply_update_def)
  have nul: "response_has_nul ?u = opt_has_nul r"
    by (simp add: response_has_nul_def)
  have a: "updateComplaintStatus e d ident ?u
      = Inr (map_option ?set (find (\<lambda>c. c_id c = ident) (complaints d)),
             d\<lparr>complaints := map (\<lambda>c. if c_id c = ident then ?set c else c) (complaints d)\<rparr>)"
    if "\<not> opt_has_nul r" "ident \<in> set (map c_id (complaints d)) \<or> \<not> has_nul ident"
    using that find_updated [of ident e ?u "complaints d"]
    by (auto simp: updateComplaintStatus_def Let_def upd nul)
  have b1: "updateComplaintStatus e d ident ?u = Inr (None, d)"
    if "\<not> opt_has_nul r" "ident \<notin> set (map c_id (complaints d))" "\<not> has_nul ident"
  proof -
    have "find (\<lambda>c. c_id c = ident) (complaints d) = None"
      using that(2) by (simp add: find_None_iff_notin)
    moreover have "map (\<lambda>c. if c_id c = ident then ?set c else c) (complaints d) = complaints d"
      using that(2) by (rule map_absent_id)
    ultimately show ?thesis
      using a [OF that(1)] that(3) by simp
  qed
  have b2: "r_status (patch_complaint_handler e d ident b) = 404
      \<and> r_db (patch_complaint_handler e d ident b) = d"
    if "\<not> opt_has_nul r" "ident \<notin> set (map c_id (complaints d))" "\<not> has_nul ident"
       "updateComplaintSchema_parse b = Inr ?u"
    using b1 [OF that(1-3)] that(4)
    by (simp add: patch_complaint_handler_def respond_def Let_def)
  have c1: "updateComplaintStatus e d ident ?u = Inl InvalidText"
    if "opt_has_nul r \<or> (ident \<notin> set (map c_id (complaints d)) \<and> has_nul ident)"
    using that by (auto simp: updateComplaintStatus_def nul)
  have c2: "r_status (patch_complaint_handler e d ident b) = 500
      \<and> r_db (patch_complaint_handler e d ident b) = d"
    if "opt_has_nul r \<or> (ident \<notin> set (map c_id (complaints d)) \<and> has_nul ident)"
       "updateComplaintSchema_parse b = Inr ?u"
    using c1 [OF that(1)] that(2)
    by (simp add: patch_complaint_handler_def respond_def next_error_def Let_def)
  have u: "users (store_after d (updateComplaintStatus e d ident ?u)) = users d"
    by (simp add: store_after_def updateComplaintStatus_def Let_def)
  show ?thesis using a b1 b2 c1 c2 u by simp
qed

text \<open>The theorem at work: complaint \<open>c1\<close> is resolved at clock reading 2000, and an
  update of a complaint that does not exist.\<close>

theorem update_status_frame_demo:
  "\<not> opt_has_nul (Some ''Fixed'')
 \<and> ''c1'' \<in> set (map c_id (complaints demo_db))
 \<and> updateComplaintStatus later_env demo_db ''c1''
       \<lparr>uc_status = Some Resolved, uc_adminResponse = Some (Some ''Fixed'')\<rparr>
     = Inr (Some (leak\<lparr>c_status := Resolved, c_adminResponse := Some ''Fixed'',
                        c_updatedAt := 2000\<rparr>),
            demo_db\<lparr>complaints :=
              [leak\<lparr>c_status := Resolved, c_adminResponse := Some ''Fixed'',
                     c_updatedAt := 2000\<rparr>]\<rparr>)
 \<and> leak \<in> set (complaints demo_db)
 \<and> c_updatedAt leak < app_now later_env
 \<and> c_updatedAt leak
     < c_updatedAt (leak\<lparr>c_status := Resolved, c_adminResponse := Some ''Fixed'',
                         c_updatedAt := app_now later_env\<rparr>)
 \<and> ''c404'' \<notin> set (map c_id (complaints demo_db)) \<and> \<not> has_nul ''c404''
 \<and> updateComplaintStatus later_env demo_db ''c404''
       \<lparr>uc_status = Some Resolved, uc_adminResponse = Some (Some ''Fixed'')\<rparr>
     = Inr (None, demo_db)
 \<and> has_nul [CHR 0x00]
 \<and> [CHR 0x00] \<notin> set (map c_id (complaints demo_db))
 \<and> updateComplaintStatus later_env demo_db [CHR 0x00]
       \<lparr>uc_status = Some Resolved, uc_adminResponse = Some (Some ''Fixed'')\<rparr>
     = Inl InvalidText
 \<and> updateComplaintSchema_parse fixed_body
     = Inr \<lparr>uc_status = Some Resolved, uc_adminResponse = Some (Some ''Fixed'')\<rparr>
 \<and> r_status (patch_complaint_handler later_env demo_db ''c404'' fixed_body) = 404
 \<and> r_status (patch_complaint_handler later_env demo_db [CHR 0x00] fixed_body) = 500"
proof -
  have h9: "updateComplaintSchema_parse fixed_body
     = Inr \<lparr>uc_status = Some Resolved, uc_adminResponse = Some (Some ''Fixed'')\<rparr>"
    by code_simp
  have h0: "\<not> opt_has_nul (Some ''Fixed'')" by code_simp
  have h1: "''c404'' \<notin> set (map c_id (complaints demo_db))" by code_simp
  have h1': "\<not> has_nul ''c404''" by code_simp
  have h2: "leak \<in> set (complaints demo_db)" by (simp add: demo_db_def)
  have h3: "c_updatedAt leak < app_now later_env" by code_simp
  have h4: "app_now later_env = 2000" by code_simp
  have h5: "complaints demo_db = [leak]" by (simp add: demo_db_def)
  have h6: "c_id leak = ''c1''" by (simp add: leak_def)
  have h7: "has_nul [CHR 0x00]" by code_simp
  have h8: "[CHR 0x00] \<notin> set (map c_id (complaints demo_db))" by code_simp
  show ?thesis
    using h0 h1 h1' h2 h3 h4 h5 h6 h7 h8 h9
      update_status_frame [of "Some ''Fixed''" "''c1''" demo_db later_env Resolved]
      update_status_frame [of "Some ''Fixed''" "''c404''" demo_db later_env Resolved fixed_body]
      update_status_frame [of "Some ''Fixed''" "[CHR 0x00]" demo_db later_env Resolved fixed_body]
    by simp
qed

text \<open>
  C6 as stated fails: an update made while the server's clock reads what the stored
  updated timestamp already holds (a second update within the same millisecond) sets the
  status and the response but does not increase the updated timestamp.
\<close>

theorem update_same_instant:
  "updateComplaintStatus demo_env demo_db ''c1'' fixed_update
     = Inr (Some (leak\<lparr>c_status := Resolved, c_adminResponse := Some ''Fixed''\<rparr>),
            demo_db\<lparr>complaints :=
              [leak\<lparr>c_status := Resolved, c_adminResponse := Some ''Fixed''\<rparr>]\<rparr>)
 \<and> c_updatedAt (leak\<lparr>c_status := Resolved, c_adminResponse := Some ''Fixed''\<rparr>)
     = c_updatedAt leak"
  by code_simp

subsection \<open>The text filter of the admin listing\<close>

lemma like_percent: "like_match ''%'' t"
  by (induction t) auto

lemma like_plain_prefix:
  "plain p \<Longrightarrow> like_match (p @ ''%'') t \<longleftrightarrow> take (length p) t = p"
proof (induction p arbitrary: t)
  case Nil
  then show ?case using like_percent by simp
next
  case (Cons a p)
  then have a: "a \<noteq> CHR ''%''" "a \<noteq> CHR ''_''" "a \<noteq> CHR 0x5C" and p: "plain p"
    by (simp_all add: plain_def)
  show ?case
  proof (cases t)
    case Nil
    then show ?thesis using a by simp
  next
    case (Cons c cs)
    then show ?thesis using a Cons.IH [OF p, of cs] by auto
  qed
qed

lemma like_plain_substring:
  "plain p \<Longrightarrow> like_match (''%'' @ p @ ''%'') t \<longleftrightarrow> has_substring t p"
proof (induction t)
  case Nil
  then show ?case using like_plain_prefix [of p "[]"] by auto
next
  case (Cons c cs)
  have "like_match (CHR ''%'' # p @ ''%'') (c # cs)
      \<longleftrightarrow> like_match (p @ ''%'') (c # cs) \<or> like_match (CHR ''%'' # p @ ''%'') cs"
    by simp
  then show ?case
    using like_plain_prefix [OF Cons.prems, of "c # cs"] Cons.IH [OF Cons.prems] by simp
qed

lemma lower_char_code:
  "(of_char (lower_char c) :: nat) =
     (if 65 \<le> (of_char c :: nat) \<and> (of_char c :: nat) \<le> 90 then of_char c + 32
      else of_char c)"
  by (simp add: lower_char_def Let_def)

lemma lower_char_fixes:
  assumes "(of_char k :: nat) < 65 \<or> (of_char k :: nat) \<in> {91..96}"
  shows "lower_char c = k \<longleftrightarrow> c = k"
proof
  assume "lower_char c = k"
  then have "(of_char (lower_char c) :: nat) = of_char k" by simp
  then have "(of_char c :: nat) = of_char k"
    using assms by (auto simp: lower_char_code split: if_splits)
  then show "c = k" by simp
next
  assume "c = k"
  then show "lower_char c = k" using assms by (auto simp: lower_char_def Let_def)
qed

lemma lower_char_special:
  "lower_char c = CHR ''%'' \<longleftrightarrow> c = CHR ''%''"
  "lower_char c = CHR ''_'' \<longleftrightarrow> c = CHR ''_''"
  "lower_char c = CHR 0x5C \<longleftrightarrow> c = CHR 0x5C"
  by (rule lower_char_fixes, simp)+

lemma plain_lower: "plain s \<Longrightarrow> plain (lower s)"
  by (auto simp: plain_def lower_def lower_char_special)

lemma ilike_plain:
  assumes "plain s"
  shows "ilike t (search_pattern s) \<longleftrightarrow> has_substring (lower t) (lower s)"
proof -
  have "lower (search_pattern s) = ''%'' @ lower s @ ''%''"
    by (simp add: search_pattern_def lower_def lower_char_def)
  then show ?thesis
    using like_plain_substring [OF plain_lower [OF assms], of "lower t"] by (simp add: ilike_def)
qed

text \<open>On a search text without \<open>%\<close>, \<open>_\<close> and backslash the filter of the code is the
  substring match of the specification.\<close>

lemma search_condition_plain:
  assumes "plain s" and "s \<noteq> []"
  shows "search_condition (Some s) r \<longleftrightarrow> spec_search_match s r"
  using assms
  by (simp add: search_condition_def truthy_def spec_search_match_def ilike_plain Let_def
      split: option.splits)

text \<open>
  C7 at the search text \<open>"_"\<close>. The code wraps the text in \<open>%\<close> and hands it to \<open>ilike\<close>
  unescaped, so \<open>_\<close> is the wildcard for one character: the listing returns the complaint
  of the population, although neither its subject, nor its description, nor the display
  name of its owner contains an underscore.
\<close>

theorem search_underscore_matches_all:
  "getAllComplaints demo_db \<lparr>f_status = None, f_category = None, f_search = Some ''_''\<rparr>
     = Inr [(leak, Some (project_student asha))]
 \<and> \<not> spec_search_match ''_'' (leak, Some (project_student asha))
 \<and> \<not> has_substring (lower (c_subject leak)) (lower ''_'')
 \<and> \<not> has_substring (lower (c_description leak)) (lower ''_'')
 \<and> \<not> has_substring (lower (u_name asha)) (lower ''_'')"
  by code_simp

subsection \<open>Deleting an account\<close>

text \<open>
  C8, as the code has it. For an account that exists and owns no complaint (its id holding
  no character U+0000, as the database stores none), the first \<open>deleteUser\<close> removes the
  row and reports success (the route answers 204) and a second one reports "not found"
  (404) and changes nothing. For an id that no account has and that
  holds no character U+0000, \<open>deleteUser\<close> reports "not found" (404) and changes nothing.
  An id that holds U+0000 is refused by the database: \<open>deleteUser\<close> raises, the route
  answers 500 and nothing changes. For an account that still owns a complaint the database
  refuses the delete: \<open>deleteUser\<close> throws the foreign-key violation, the route answers
  500 and the account stays.
\<close>

theorem delete_account_twice:
  "(ident \<in> set (map u_id (users d)) \<and> ident \<notin> set (map c_studentId (complaints d))
      \<and> \<not> has_nul ident \<longrightarrow>
      (\<exists>d'. deleteUser d ident = Inr (True, d')
           \<and> deleteUser d' ident = Inr (False, d')
           \<and> users d' = filter (\<lambda>u. u_id u \<noteq> ident) (users d)
           \<and> complaints d' = complaints d
           \<and> r_status (delete_user_handler d ident) = 204
           \<and> r_status (delete_user_handler d' ident) = 404))
 \<and> (ident \<notin> set (map u_id (users d)) \<and> \<not> has_nul ident \<longrightarrow>
      deleteUser d ident = Inr (False, d)
    \<and> r_status (delete_user_handler d ident) = 404
    \<and> r_db (delete_user_handler d ident) = d)
 \<and> (ident \<notin> set (map u_id (users d)) \<and> has_nul ident \<longrightarrow>
      deleteUser d ident = Inl InvalidText
    \<and> r_status (delete_user_handler d ident) = 500
    \<and> r_db (delete_user_handler d ident) = d)
 \<and> (ident \<in> set (map u_id (users d)) \<and> ident \<in> set (map c_studentId (complaints d)) \<longrightarrow>
      deleteUser d ident = Inl (ForeignKeyViolation ''complaints_student_id_users_id_fk'')
    \<and> r_status (delete_user_handler d ident) = 500
    \<and> r_db (delete_user_handler d ident) = d)"
proof -
  have a: "\<exists>d'. deleteUser d ident = Inr (True, d')
           \<and> deleteUser d' ident = Inr (False, d')
           \<and> users d' = filter (\<lambda>u. u_id u \<noteq> ident) (users d)
           \<and> complaints d' = complaints d
           \<and> r_status (delete_user_handler d ident) = 204
           \<and> r_status (delete_user_handler d' ident) = 404"
    if "ident \<in> set (map u_id (users d))" "ident \<notin> set (map c_studentId (complaints d))"
       "\<not> has_nul ident"
  proof -
    let ?d' = "d\<lparr>users := filter (\<lambda>u. u_id u \<noteq> ident) (users d)\<rparr>"
    have 1: "deleteUser d ident = Inr (True, ?d')"
      using that(1,2) by (simp add: deleteUser_def)
    have gone: "ident \<notin> set (map u_id (users ?d'))" by auto
    have 2: "deleteUser ?d' ident = Inr (False, ?d')"
      using that(3) gone by (simp only: deleteUser_def if_False if_True)
    show ?thesis
      using 1 2 by (intro exI [of _ ?d']) (simp add: delete_user_handler_def respond_def)
  qed
  have b: "deleteUser d ident = Inr (False, d)
      \<and> r_status (delete_user_handler d ident) = 404
      \<and> r_db (delete_user_handler d ident) = d"
    if "ident \<notin> set (map u_id (users d))" "\<not> has_nul ident"
    using that by (simp add: deleteUser_def delete_user_handler_def respond_def)
  have c: "deleteUser d ident = Inl InvalidText
      \<and> r_status (delete_user_handler d ident) = 500
      \<and> r_db (delete_user_handler d ident) = d"
    if "ident \<notin> set (map u_id (users d))" "has_nul ident"
    using that
    by (simp add: deleteUser_def delete_user_handler_def respond_def next_error_def)
  have f: "deleteUser d ident = Inl (ForeignKeyViolation ''complaints_student_id_users_id_fk'')
      \<and> r_status (delete_user_handler d ident) = 500
      \<and> r_db (delete_user_handler d ident) = d"
    if "ident \<in> set (map u_id (users d))" "ident \<in> set (map c_studentId (complaints d))"
    using that
    by (simp add: deleteUser_def delete_user_handler_def respond_def next_error_def)
  show ?thesis using a b c f by blast
qed

text \<open>The theorem at work: Ravi owns no complaint, nobody has the id \<open>u404\<close> nor the id
  made of the character U+0000, Asha owns complaint \<open>c1\<close>.\<close>

theorem delete_account_twice_demo:
  "''u2'' \<in> set (map u_id (users demo_db))
 \<and> ''u2'' \<notin> set (map c_studentId (complaints demo_db))
 \<and> \<not> has_nul ''u2''
 \<and> (\<exists>d'. deleteUser demo_db ''u2'' = Inr (True, d')
        \<and> deleteUser d' ''u2'' = Inr (False, d')
        \<and> r_status (delete_user_handler demo_db ''u2'') = 204
        \<and> r_status (delete_user_handler d' ''u2'') = 404)
 \<and> ''u404'' \<notin> set (map u_id (users demo_db))
 \<and> \<not> has_nul ''u404''
 \<and> deleteUser demo_db ''u404'' = Inr (False, demo_db)
 \<and> [CHR 0x00] \<notin> set (map u_id (users demo_db))
 \<and> has_nul [CHR 0x00]
 \<and> r_status (delete_user_handler demo_db [CHR 0x00]) = 500
 \<and> ''u1'' \<in> set (map u_id (users demo_db))
 \<and> ''u1'' \<in> set (map c_studentId (complaints demo_db))
 \<and> r_status (delete_user_handler demo_db ''u1'') = 500"
proof -
  have h1: "''u2'' \<in> set (map u_id (users demo_db))" by code_simp
  have h2: "''u2'' \<notin> set (map c_studentId (complaints demo_db))" by code_simp
  have h2': "\<not> has_nul ''u2''" by code_simp
  have h3: "''u404'' \<notin> set (map u_id (users demo_db))" by code_simp
  have h3': "\<not> has_nul ''u404''" by code_simp
  have h4: "''u1'' \<in> set (map u_id (users demo_db))" by code_simp
  have h5: "''u1'' \<in> set (map c_studentId (complaints demo_db))" by code_simp
  have h6: "[CHR 0x00] \<notin> set (map u_id (users demo_db))" by code_simp
  have h7: "has_nul [CHR 0x00]" by code_simp
  have a: "\<exists>d'. deleteUser demo_db ''u2'' = Inr (True, d')
        \<and> deleteUser d' ''u2'' = Inr (False, d')
        \<and> r_status (delete_user_handler demo_db ''u2'') = 204
        \<and> r_status (delete_user_handler d' ''u2'') = 404"
    using delete_account_twice [of "''u2''" demo_db] h1 h2 h2' by blast
  have b: "deleteUser demo_db ''u404'' = Inr (False, demo_db)"
    using delete_account_twice [of "''u404''" demo_db] h3 h3' by blast
  have c: "r_status (delete_user_handler demo_db [CHR 0x00]) = 500"
    using delete_account_twice [of "[CHR 0x00]" demo_db] h6 h7 by blast
  have f: "r_status (delete_user_handler demo_db ''u1'') = 500"
    using delete_account_twice [of "''u1''" demo_db] h4 h5 by blast
  show ?thesis
    using h1 h2 h2' h3 h3' h4 h5 h6 h7 a b c f by (intro conjI)
qed

text \<open>
  C8 as stated fails: deleting Asha's account, which owns complaint \<open>c1\<close>, does not report
  success. The store throws, the admin's request is answered 500, the account stays.
\<close>

theorem delete_owner_fails:
  "deleteUser demo_db ''u1'' = Inl (ForeignKeyViolation ''complaints_student_id_users_id_fk'')
 \<and> o_status (handle demo_lib demo_env demo_db (Some ''a1'') (DeleteUserById ''u1'')) = 500
 \<and> users (o_db (handle demo_lib demo_env demo_db (Some ''a1'') (DeleteUserById ''u1'')))
     = users demo_db"
  by code_simp

subsection \<open>The owner reference is an invariant\<close>

lemma owners_exist_alt:
  "owners_exist d \<longleftrightarrow> set (map c_studentId (complaints d)) \<subseteq> set (map u_id (users d))"
  by (auto simp: owners_exist_def)

lemma owners_kept_refl: "owners_kept d d"
  by (simp add: owners_kept_def)

lemma update_owner_ids:
  "map c_studentId (complaints (store_after d (updateComplaintStatus e d ident u)))
     = map c_studentId (complaints d)"
  by (simp add: store_after_def updateComplaintStatus_def Let_def apply_update_owner comp_def)

lemma update_users: "users (store_after d (updateComplaintStatus e d ident u)) = users d"
  by (simp add: store_after_def updateComplaintStatus_def Let_def)

lemma createUser_inv:
  "createUser l e d iu = Inr (u, d') \<Longrightarrow> owners_exist d \<Longrightarrow>
     owners_exist d' \<and> owners_kept d d'"
  by (auto simp: createUser_def owners_exist_def owners_kept_def Let_def split: if_splits)

lemma createComplaint_inv:
  "createComplaint e d ic sid = Inr (c, d') \<Longrightarrow> owners_exist d \<Longrightarrow>
     owners_exist d' \<and> owners_kept d d'"
  by (auto simp: createComplaint_def owners_exist_def owners_kept_def Let_def split: if_splits)

lemma filter_keeps_owner:
  assumes "ident \<notin> set (map c_studentId cs)" and "c \<in> set cs"
      and "c_studentId c \<in> set (map u_id us)"
  shows "c_studentId c \<in> set (map u_id (filter (\<lambda>u. u_id u \<noteq> ident) us))"
proof -
  from assms(3) obtain u where u: "u \<in> set us" "u_id u = c_studentId c" by auto
  from assms(1,2) have "c_studentId c \<noteq> ident" by auto
  with u show ?thesis by force
qed

lemma deleteUser_inv:
  assumes "deleteUser d ident = Inr (ok, d')" and "owners_exist d"
  shows "owners_exist d' \<and> owners_kept d d'"
proof (cases "ident \<in> set (map u_id (users d))")
  case False
  then have "d' = d" using assms(1) by (simp add: deleteUser_def split: if_splits)
  then show ?thesis using assms(2) by (simp add: owners_kept_def)
next
  case True
  then have free: "ident \<notin> set (map c_studentId (complaints d))"
    and d': "d' = d\<lparr>users := filter (\<lambda>u. u_id u \<noteq> ident) (users d)\<rparr>"
    using assms(1) by (auto simp: deleteUser_def split: if_splits)
  have "owners_exist d'"
    unfolding owners_exist_def
  proof
    fix c assume c: "c \<in> set (complaints d')"
    then have "c \<in> set (complaints d)" by (simp add: d')
    moreover from this have "c_studentId c \<in> set (map u_id (users d))"
      using assms(2) by (simp add: owners_exist_def)
    ultimately show "c_studentId c \<in> set (map u_id (users d'))"
      using filter_keeps_owner [OF free] by (simp add: d')
  qed
  then show ?thesis by (simp add: owners_kept_def d')
qed

lemma update_inv:
  "owners_exist d \<Longrightarrow> owners_exist (store_after d (updateComplaintStatus e d ident u))
     \<and> owners_kept d (store_after d (updateComplaintStatus e d ident u))"
  using update_owner_ids [of d e ident u] update_users [of d e ident u]
  by (simp add: owners_exist_alt owners_kept_def)

lemma create_account_inv:
  "owners_exist d \<Longrightarrow> owners_exist (r_db (create_account l e d b login))
     \<and> owners_kept d (r_db (create_account l e d b login))"
  by (auto simp: create_account_def respond_def next_error_def Let_def owners_kept_refl
      dest: createUser_inv split: sum.splits option.splits)

lemma post_complaint_inv:
  "owners_exist d \<Longrightarrow> owners_exist (r_db (post_complaint_handler e d usr b))
     \<and> owners_kept d (r_db (post_complaint_handler e d usr b))"
  by (auto simp: post_complaint_handler_def respond_def next_error_def Let_def owners_kept_refl
      dest: createComplaint_inv split: sum.splits option.splits)

lemma patch_inv:
  assumes inv: "owners_exist d"
  shows "owners_exist (r_db (patch_complaint_handler e d ident b))
     \<and> owners_kept d (r_db (patch_complaint_handler e d ident b))"
proof (cases "updateComplaintSchema_parse b")
  case (Inl issues)
  then show ?thesis
    using inv by (simp add: patch_complaint_handler_def respond_def owners_kept_refl)
next
  case (Inr v)
  have "r_db (patch_complaint_handler e d ident b)
      = store_after d (updateComplaintStatus e d ident v)"
    using Inr
    by (simp add: patch_complaint_handler_def respond_def next_error_def store_after_def Let_def
        split: sum.splits prod.splits option.splits)
  then show ?thesis using update_inv [OF inv, of e ident v] by simp
qed

lemma delete_inv:
  "owners_exist d \<Longrightarrow> owners_exist (r_db (delete_user_handler d ident))
     \<and> owners_kept d (r_db (delete_user_handler d ident))"
  by (auto simp: delete_user_handler_def respond_def next_error_def owners_kept_refl
      dest: deleteUser_inv split: sum.splits)

lemma readonly_handlers:
  "r_db (login_handler l d uname pw) = d"
  "r_db (logout_handler d) = d"
  "r_db (whoami_handler d usr) = d"
  "r_db (my_complaints_handler d usr) = d"
  "r_db (my_stats_handler d usr) = d"
  "r_db (complaints_handler d cf) = d"
  "r_db (stats_handler d) = d"
  "r_db (complaint_handler d ident) = d"
  "r_db (users_handler d uf) = d"
  by (auto simp: login_handler_def logout_handler_def whoami_handler_def
        my_complaints_handler_def my_stats_handler_def complaints_handler_def stats_handler_def
        complaint_handler_def users_handler_def respond_def next_error_def Let_def
      split: option.splits sum.splits bool.splits)

lemma handler_inv:
  assumes "owners_exist d"
  shows "owners_exist (r_db (handler l e d usr req))
       \<and> owners_kept d (r_db (handler l e d usr req))"
  using assms create_account_inv [OF assms] post_complaint_inv [OF assms] patch_inv [OF assms]
    delete_inv [OF assms]
  by (cases req)
     (simp_all add: handler_def readonly_handlers owners_kept_refl register_handler_def
        post_user_handler_def)

lemma route_inv:
  assumes "owners_exist d"
  shows "owners_exist (r_db (route l e d usr req)) \<and> owners_kept d (r_db (route l e d usr req))"
  using handler_inv [OF assms, of l e usr req] assms
  by (simp add: route_def guarded_def respond_def owners_kept_refl
      split: option.splits prod.splits)

lemma handle_inv:
  assumes "owners_exist d"
  shows "owners_exist (o_db (handle l e d sess req)) \<and> owners_kept d (o_db (handle l e d sess req))"
  using handle_db_cases [of l e d sess req] route_inv [OF assms, of l e _ req] assms
  by (auto simp: owners_kept_refl)

lemma post_complaint_201:
  assumes "o_status (handle l e d sess (PostComplaint b)) = 201"
  shows "\<exists>u \<in> set (users d). sess = Some (u_id u) \<and> u_role u = Student"
proof (cases sess)
  case None
  then show ?thesis using assms
    by (simp add: handle_def deserializeUser_def finish_simps route_no_user_auth respond_def)
next
  case (Some ident)
  note sess = this
  show ?thesis
  proof (cases "getUser d ident")
    case (Inl err)
    then show ?thesis using assms sess
      by (simp add: handle_def deserializeUser_def)
  next
    case (Inr found)
    show ?thesis
    proof (cases found)
      case None
      then show ?thesis using assms sess Inr
        by (simp add: handle_def deserializeUser_def finish_simps route_no_user_auth respond_def)
    next
      case (Some u)
      have st: "u_role u = Student"
      proof (rule ccontr)
        assume "u_role u \<noteq> Student"
        then have "u_role u = Admin" by (cases "u_role u") simp_all
        then show False using assms sess Inr Some
          by (simp add: handle_def deserializeUser_def finish_simps route_def run_middleware_def
                requireAuth_def guarded_def handler_def post_complaint_handler_def
                not_student_def respond_def)
      qed
      from Inr Some have "getUser d ident = Inr (Some u)" by simp
      with getUser_Some [OF this] st sess show ?thesis by auto
    qed
  qed
qed

lemma delete_owner_keeps_store:
  assumes "deleteUser d ident = Inl err"
  shows "o_db (handle l e d sess (DeleteUserById ident)) = d"
proof -
  have "r_db (route l e d usr (DeleteUserById ident)) = d" for usr
    using assms
    by (simp add: route_def guarded_def handler_def delete_user_handler_def respond_def
          next_error_def split: option.splits prod.splits)
  then show ?thesis
    using handle_db_cases [of l e d sess "DeleteUserById ident"] by auto
qed

text \<open>
  C10. If every complaint's owner id is the id of an account, the same holds after any
  request, whoever sends it, and every complaint that was there is still there with the
  owner id it had. Filing a complaint succeeds only for a caller whose session belongs to an
  existing account with role student, and the store itself refuses a complaint whose owner
  id is not the id of an account. Deleting an account that owns a complaint is refused by
  the owner reference and the store stays as it was.
\<close>

theorem owner_reference_invariant:
  assumes "owners_exist d"
  shows "owners_exist (o_db (handle l e d sess req))
       \<and> owners_kept d (o_db (handle l e d sess req))
       \<and> map c_studentId (complaints (store_after d (updateComplaintStatus e d ident' upd)))
           = map c_studentId (complaints d)
       \<and> (o_status (handle l e d sess (PostComplaint b)) = 201 \<longrightarrow>
            (\<exists>u \<in> set (users d). sess = Some (u_id u) \<and> u_role u = Student))
       \<and> (sid \<notin> set (map u_id (users d)) \<longrightarrow> (\<exists>err. createComplaint e d ic sid = Inl err))
       \<and> (ident \<in> set (map c_studentId (complaints d)) \<longrightarrow>
            deleteUser d ident = Inl (ForeignKeyViolation ''complaints_student_id_users_id_fk'')
          \<and> o_db (handle l e d sess (DeleteUserById ident)) = d)"
proof -
  have del: "deleteUser d ident = Inl (ForeignKeyViolation ''complaints_student_id_users_id_fk'')"
    if "ident \<in> set (map c_studentId (complaints d))"
    using that assms by (auto simp: deleteUser_def owners_exist_def)
  have del2: "o_db (handle l e d sess (DeleteUserById ident)) = d"
    if "ident \<in> set (map c_studentId (complaints d))"
    using del [OF that] by (rule delete_owner_keeps_store)
  have ins: "\<exists>err. createComplaint e d ic sid = Inl err"
    if "sid \<notin> set (map u_id (users d))"
    using that by (simp add: createComplaint_def Let_def)
  show ?thesis
    using handle_inv [OF assms] post_complaint_201 del del2 ins update_owner_ids
    by blast
qed

text \<open>The theorem at work: the population satisfies the invariant; Asha files a complaint,
  and the admin tries to delete Asha's account.\<close>

theorem owner_reference_invariant_demo:
  "owners_exist demo_db
 \<and> owners_exist (o_db (handle demo_lib demo_env demo_db (Some ''u1'') (PostComplaint faucet_body)))
 \<and> o_status (handle demo_lib demo_env demo_db (Some ''u1'') (PostComplaint faucet_body)) = 201
 \<and> (\<exists>u. u \<in> set (users demo_db) \<and> Some ''u1'' = Some (u_id u) \<and> u_role u = Student)
 \<and> ''u404'' \<notin> set (map u_id (users demo_db))
 \<and> (\<exists>err. createComplaint demo_env demo_db
       \<lparr> ic_subject = ''Leak'', ic_description = ''Tap'', ic_category = Other,
         ic_roomNumber = ''B-12'' \<rparr> ''u404'' = Inl err)
 \<and> ''u1'' \<in> set (map c_studentId (complaints demo_db))
 \<and> o_db (handle demo_lib demo_env demo_db (Some ''a1'') (DeleteUserById ''u1'')) = demo_db"
proof -
  have h0: "owners_exist demo_db"
    by (simp add: owners_exist_def demo_db_def leak_def asha_def)
  have h1: "o_status (handle demo_lib demo_env demo_db (Some ''u1'') (PostComplaint faucet_body))
      = 201"
    by code_simp
  have h2: "''u404'' \<notin> set (map u_id (users demo_db))" by code_simp
  have h3: "''u1'' \<in> set (map c_studentId (complaints demo_db))" by code_simp
  show ?thesis
    using h0 h1 h2 h3
      owner_reference_invariant [OF h0, of demo_lib demo_env "Some ''u1''"
        "PostComplaint faucet_body" _ _ faucet_body "''u404''" _ "''u1''"]
      owner_reference_invariant [OF h0, of demo_lib demo_env "Some ''a1''"
        "DeleteUserById ''u1''" _ _ faucet_body "''u404''" _ "''u1''"]
    by blast
qed

subsection \<open>Statistics\<close>

lemma status_count_split:
  "length cs =
     length (filter (\<lambda>c. status_label (c_status c) = ''pending'') cs)
   + length (filter (\<lambda>c. status_label (c_status c) = ''inprogress'') cs)
   + length (filter (\<lambda>c. status_label (c_status c) = ''resolved'') cs)"
proof (induction cs)
  case Nil
  show ?case by simp
next
  case (Cons c cs)
  then show ?case by (cases "c_status c") simp_all
qed

text \<open>
  C9. For every population of complaints, the global statistics satisfy
  total = pending + inprogress + resolved. The status column is an enum of exactly three
  labels, so every row falls in exactly one bucket.
\<close>

theorem getComplaintStats_total:
  "total (getComplaintStats d)
     = pending (getComplaintStats d) + inprogress (getComplaintStats d)
       + resolved (getComplaintStats d)"
  unfolding getComplaintStats_def Let_def
  using status_count_split [of "complaints d"] by simp

end
